theory Spec2Isabelle
  imports Complex_Main "HOL-Library.Sublist"
begin

section \<open>Python values\<close>

text \<open>
  The values that travel through the server are the ones \<^verbatim>\<open>json.loads\<close> produces:
  \<^verbatim>\<open>None\<close>, booleans, integers, floats, strings, lists and dictionaries with string
  keys. A dictionary is an association list; \<open>map_of\<close> looks a key up. Finite floats are
  carried as rationals (no NaN, no infinities).
\<close>

datatype json =
    JNull
  | JBool bool
  | JInt int
  | JFloat rat
  | JStr string
  | JList "json list"
  | JObj "(string \<times> json) list"

text \<open>Python's truth value of an object, as \<^verbatim>\<open>if x:\<close> tests it.\<close>

fun truthy :: "json \<Rightarrow> bool" where
  "truthy JNull = False"
| "truthy (JBool b) = b"
| "truthy (JInt i) = (i \<noteq> 0)"
| "truthy (JFloat q) = (q \<noteq> 0)"
| "truthy (JStr s) = (s \<noteq> [])"
| "truthy (JList xs) = (xs \<noteq> [])"
| "truthy (JObj kvs) = (kvs \<noteq> [])"

text \<open>An \<^verbatim>\<open>Optional[int]\<close> or \<^verbatim>\<open>Optional[str]\<close> attribute as the Python object it is.\<close>

definition of_opt_int :: "int option \<Rightarrow> json" where
  "of_opt_int x = (case x of None \<Rightarrow> JNull | Some i \<Rightarrow> JInt i)"

definition of_opt_str :: "string option \<Rightarrow> json" where
  "of_opt_str x = (case x of None \<Rightarrow> JNull | Some s \<Rightarrow> JStr s)"

text \<open>\<^verbatim>\<open>d[k] = v\<close>: an existing key keeps its place, a new key goes last.\<close>

fun dict_set :: "(string \<times> json) list \<Rightarrow> string \<Rightarrow> json \<Rightarrow> (string \<times> json) list" where
  "dict_set [] k v = [(k, v)]"
| "dict_set ((k', v') # d) k v = (if k' = k then (k, v) # d else (k', v') # dict_set d k v)"

text \<open>\<^verbatim>\<open>str(n)\<close> of a natural number: its decimal digits.\<close>

definition digit_char :: "nat \<Rightarrow> char" where
  "digit_char d = ''0123456789'' ! d"

function show_nat :: "nat \<Rightarrow> string" where
  "show_nat n = (if n < 10 then [digit_char n] else show_nat (n div 10) @ [digit_char (n mod 10)])"
  by pat_completeness auto
termination
  by (relation "measure id") auto

declare show_nat.simps [simp del]

section \<open>HTTP responses and exceptions\<close>

text \<open>
  A \<^verbatim>\<open>requests.Response\<close> as the client reads it. \<open>retry_after\<close> is the value of a
  \<^verbatim>\<open>Retry-After\<close> header in seconds, when there is one; \<open>json_body\<close> is what
  \<^verbatim>\<open>response.json()\<close> returns, \<open>None\<close> when it raises a decode error.
\<close>

record Response =
  status_code :: nat
  reason :: string
  url :: string
  retry_after :: "nat option"
  content :: string
  json_body :: "json option"

text \<open>One entry of a pydantic \<^verbatim>\<open>ValidationError\<close>: the location of the field, the error
  type and the offending input.\<close>

type_synonym error_detail = "string list \<times> string \<times> json"

text \<open>
  The exceptions that occur. \<open>ValidationError\<close> holds the model's name and its entries;
  \<open>UberAdsAPIError\<close> its message and optional status code (lines 21 to 27);
  \<open>HTTPError\<close> the response \<^verbatim>\<open>raise_for_status\<close> refused; \<open>RetryError\<close> the last
  response of an exhausted retry; \<open>ConnectionError\<close> the text of a failed connection;
  \<open>JSONDecodeError\<close> the body that did not decode (a \<^verbatim>\<open>RequestException\<close> since
  requests 2.27); \<open>AttributeError\<close> the object and the missing attribute; \<open>TypeError\<close>
  the object that \<^verbatim>\<open>**\<close> could not unpack.
\<close>

datatype exn =
    ValidationError string "error_detail list"
  | UberAdsAPIError string "nat option"
  | HTTPError Response
  | RetryError Response
  | ConnectionError string
  | JSONDecodeError string
  | AttributeError json string
  | TypeError json

text \<open>The four \<^verbatim>\<open>requests.exceptions.RequestException\<close> classes among them.\<close>

fun is_RequestException :: "exn \<Rightarrow> bool" where
  "is_RequestException (HTTPError r) = True"
| "is_RequestException (RetryError r) = True"
| "is_RequestException (ConnectionError t) = True"
| "is_RequestException (JSONDecodeError t) = True"
| "is_RequestException e = False"

text \<open>
  What the libraries decide and the repository does not: pydantic's lax-mode conversions
  of a boolean, a float or a string to \<^verbatim>\<open>int\<close> and of a boolean or a string to
  \<^verbatim>\<open>float\<close>, the wording of one entry of a validation error, \<^verbatim>\<open>str()\<close> of an object
  that is not a string, \<^verbatim>\<open>str()\<close> of an exception the interpreter or a library words,
  and \<^verbatim>\<open>json.dumps(x, indent=2, default=str)\<close>. Every function of the model that
  depends on one of them takes this record as its first argument.
\<close>

record pylib =
  lax_int :: "json \<Rightarrow> int option"
  lax_float :: "json \<Rightarrow> rat option"
  error_wording :: "string \<Rightarrow> json \<Rightarrow> string"
  py_str :: "json \<Rightarrow> string"
  exc_str :: "exn \<Rightarrow> string"
  json_dumps :: "json \<Rightarrow> string"

text \<open>\<^verbatim>\<open>raise_for_status\<close> of requests words its \<^verbatim>\<open>HTTPError\<close> from the status, the
  reason and the URL; it raises for 400 to 599 only.\<close>

definition http_error_msg :: "Response \<Rightarrow> string" where
  "http_error_msg r =
     show_nat (status_code r) @
     (if status_code r < 500 then '' Client Error: '' else '' Server Error: '') @
     reason r @ '' for url: '' @ url r"

definition join_loc :: "string list \<Rightarrow> string" where
  "join_loc loc = (case loc of [] \<Rightarrow> [] | k # ks \<Rightarrow> foldl (\<lambda>acc x. acc @ ''.'' @ x) k ks)"

text \<open>\<^verbatim>\<open>str(e)\<close> of a \<^verbatim>\<open>ValidationError\<close>: the count and the model's name, then for each
  entry its dotted location on one line and its wording on the next.\<close>

definition str_ValidationError :: "pylib \<Rightarrow> string \<Rightarrow> error_detail list \<Rightarrow> string" where
  "str_ValidationError L title es =
     show_nat (length es) @
     (if length es = 1 then '' validation error for '' else '' validation errors for '') @ title @
     concat (map (\<lambda>(loc, ty, inp). [CHR 0x0A] @ join_loc loc @ [CHR 0x0A] @ ''  '' @
                    error_wording L ty inp) es)"

fun str_exn :: "pylib \<Rightarrow> exn \<Rightarrow> string" where
  "str_exn L (UberAdsAPIError message sc) = message"
| "str_exn L (ValidationError title es) = str_ValidationError L title es"
| "str_exn L (HTTPError r) = http_error_msg r"
| "str_exn L e = exc_str L e"

section \<open>types.py: validation\<close>

text \<open>
  A pydantic model validates each field on its own and reports every failure, so a
  validator returns either all the entries or the value. \<open>at_loc k\<close> puts a field name or a
  list index in front of the locations of a nested result.
\<close>

type_synonym 'a validated = "error_detail list + 'a"

definition errs :: "'a validated \<Rightarrow> error_detail list" where
  "errs r = (case r of Inl es \<Rightarrow> es | Inr x \<Rightarrow> [])"

definition at_loc :: "string \<Rightarrow> 'a validated \<Rightarrow> 'a validated" where
  "at_loc k r = (case r of Inl es \<Rightarrow> Inl (map (\<lambda>(loc, ty, inp). (k # loc, ty, inp)) es) | Inr x \<Rightarrow> Inr x)"

definition v_str :: "json \<Rightarrow> string validated" where
  "v_str j = (case j of JStr s \<Rightarrow> Inr s | _ \<Rightarrow> Inl [([], ''string_type'', j)])"

definition lax :: "'a option \<Rightarrow> string \<Rightarrow> json \<Rightarrow> 'a validated" where
  "lax converted ty j = (case converted of Some x \<Rightarrow> Inr x | None \<Rightarrow> Inl [([], ty, j)])"

definition v_int :: "pylib \<Rightarrow> json \<Rightarrow> int validated" where
  "v_int L j =
     (case j of
        JInt i \<Rightarrow> Inr i
      | JBool b \<Rightarrow> lax (lax_int L j) ''int_type'' j
      | JFloat q \<Rightarrow> lax (lax_int L j) ''int_from_float'' j
      | JStr s \<Rightarrow> lax (lax_int L j) ''int_parsing'' j
      | _ \<Rightarrow> Inl [([], ''int_type'', j)])"

definition v_float :: "pylib \<Rightarrow> json \<Rightarrow> rat validated" where
  "v_float L j =
     (case j of
        JFloat q \<Rightarrow> Inr q
      | JInt i \<Rightarrow> Inr (of_int i)
      | JBool b \<Rightarrow> lax (lax_float L j) ''float_type'' j
      | JStr s \<Rightarrow> lax (lax_float L j) ''float_parsing'' j
      | _ \<Rightarrow> Inl [([], ''float_type'', j)])"

definition v_literal :: "string list \<Rightarrow> json \<Rightarrow> string validated" where
  "v_literal allowed j =
     (case j of
        JStr s \<Rightarrow> if s \<in> set allowed then Inr s else Inl [([], ''literal_error'', j)]
      | _ \<Rightarrow> Inl [([], ''literal_error'', j)])"

definition v_optional :: "(json \<Rightarrow> 'a validated) \<Rightarrow> json \<Rightarrow> 'a option validated" where
  "v_optional v j =
     (case j of JNull \<Rightarrow> Inr None
      | _ \<Rightarrow> (case v j of Inl es \<Rightarrow> Inl es | Inr x \<Rightarrow> Inr (Some x)))"

text \<open>The items of a list, each at its index; the entries of a dictionary, each at its key.\<close>

fun v_items :: "(json \<Rightarrow> 'a validated) \<Rightarrow> nat \<Rightarrow> json list \<Rightarrow> 'a list validated" where
  "v_items v n [] = Inr []"
| "v_items v n (x # xs) =
     (case (at_loc (show_nat n) (v x), v_items v (Suc n) xs) of
        (Inr y, Inr ys) \<Rightarrow> Inr (y # ys)
      | (r, rs) \<Rightarrow> Inl (errs r @ errs rs))"

definition v_list :: "(json \<Rightarrow> 'a validated) \<Rightarrow> json \<Rightarrow> 'a list validated" where
  "v_list v j = (case j of JList xs \<Rightarrow> v_items v 0 xs | _ \<Rightarrow> Inl [([], ''list_type'', j)])"

fun v_entries :: "(json \<Rightarrow> 'a validated) \<Rightarrow> (string \<times> json) list \<Rightarrow> (string \<times> 'a) list validated" where
  "v_entries v [] = Inr []"
| "v_entries v ((k, x) # kvs) =
     (case (at_loc k (v x), v_entries v kvs) of
        (Inr y, Inr ys) \<Rightarrow> Inr ((k, y) # ys)
      | (r, rs) \<Rightarrow> Inl (errs r @ errs rs))"

definition v_dict :: "(json \<Rightarrow> 'a validated) \<Rightarrow> json \<Rightarrow> (string \<times> 'a) list validated" where
  "v_dict v j = (case j of JObj kvs \<Rightarrow> v_entries v kvs | _ \<Rightarrow> Inl [([], ''dict_type'', j)])"

text \<open>A nested model takes a dictionary.\<close>

definition v_model :: "((string \<times> json) list \<Rightarrow> 'a validated) \<Rightarrow> json \<Rightarrow> 'a validated" where
  "v_model validate j = (case j of JObj kw \<Rightarrow> validate kw | _ \<Rightarrow> Inl [([], ''model_type'', j)])"

text \<open>A field without a default must be present; a field with a default takes it when the
  key is absent.\<close>

definition required :: "(string \<times> json) list \<Rightarrow> string \<Rightarrow> (json \<Rightarrow> 'a validated) \<Rightarrow> 'a validated" where
  "required kw k v =
     (case map_of kw k of None \<Rightarrow> Inl [([k], ''missing'', JObj kw)] | Some j \<Rightarrow> at_loc k (v j))"

definition with_default :: "(string \<times> json) list \<Rightarrow> string \<Rightarrow> 'a \<Rightarrow> (json \<Rightarrow> 'a validated) \<Rightarrow> 'a validated" where
  "with_default kw k d v = (case map_of kw k of None \<Rightarrow> Inr d | Some j \<Rightarrow> at_loc k (v j))"

section \<open>types.py: the options of a campaign listing\<close>

record GetCampaignsOptions =
  limit :: "int option"
  offset :: "int option"
  status :: "string option"
  objective :: "string option"
  sort_by :: "string option"
  sort_order :: "string option"

text \<open>\<^verbatim>\<open>GetCampaignsOptions()\<close>: every field at its declared default.\<close>

definition GetCampaignsOptions_default :: GetCampaignsOptions where
  "GetCampaignsOptions_default =
     \<lparr>limit = Some 50, offset = Some 0, status = None, objective = None,
      sort_by = None, sort_order = None\<rparr>"

text \<open>The \<^verbatim>\<open>Literal[...]\<close> value sets of the three enumerated fields.\<close>

definition options_status_values :: "string list" where
  "options_status_values = [''ACTIVE'', ''PAUSED'', ''ARCHIVED'']"

definition sort_by_values :: "string list" where
  "sort_by_values = [''created_at'', ''updated_at'', ''name'', ''spend'']"

definition sort_order_values :: "string list" where
  "sort_order_values = [''asc'', ''desc'']"

definition in_literal :: "string list \<Rightarrow> string option \<Rightarrow> bool" where
  "in_literal allowed x = (case x of None \<Rightarrow> True | Some s \<Rightarrow> s \<in> set allowed)"

text \<open>A record that passed the model's validation: the enumerated fields hold one of
  their literals (or \<^verbatim>\<open>None\<close>).\<close>

definition GetCampaignsOptions_valid :: "GetCampaignsOptions \<Rightarrow> bool" where
  "GetCampaignsOptions_valid options =
     (in_literal options_status_values (status options) \<and>
      in_literal sort_by_values (sort_by options) \<and>
      in_literal sort_order_values (sort_order options))"

section \<open>types.py: the entities\<close>

text \<open>
  Each class is a record (a field name that several classes share, or that HOL already
  uses, gets the class's prefix) with the validator pydantic derives from the declaration:
  the fields in the order of the source, \<open>required\<close> for a field without a default,
  \<open>with_default\<close> otherwise. \<open>dump\<close> is \<^verbatim>\<open>model_dump()\<close>: the dictionary of all fields.
\<close>

definition of_opt :: "('a \<Rightarrow> json) \<Rightarrow> 'a option \<Rightarrow> json" where
  "of_opt f x = (case x of None \<Rightarrow> JNull | Some y \<Rightarrow> f y)"

definition of_strs :: "string list \<Rightarrow> json" where
  "of_strs xs = JList (map JStr xs)"

record AdAccount =
  acct_id :: string
  acct_name :: string
  acct_currency :: string
  acct_timezone :: string
  acct_status :: string
  acct_created_at :: string
  acct_updated_at :: string

definition AdAccount_validate :: "(string \<times> json) list \<Rightarrow> AdAccount validated" where
  "AdAccount_validate kw =
     (let f1 = required kw ''id'' v_str;
          f2 = required kw ''name'' v_str;
          f3 = required kw ''currency'' v_str;
          f4 = required kw ''timezone'' v_str;
          f5 = required kw ''status'' v_str;
          f6 = required kw ''created_at'' v_str;
          f7 = required kw ''updated_at'' v_str
      in if isl f1 \<or> isl f2 \<or> isl f3 \<or> isl f4 \<or> isl f5 \<or> isl f6 \<or> isl f7
         then Inl (errs f1 @ errs f2 @ errs f3 @ errs f4 @ errs f5 @ errs f6 @ errs f7)
         else Inr \<lparr>acct_id = projr f1, acct_name = projr f2, acct_currency = projr f3,
                   acct_timezone = projr f4, acct_status = projr f5,
                   acct_created_at = projr f6, acct_updated_at = projr f7\<rparr>)"

definition AdAccount_dump :: "AdAccount \<Rightarrow> json" where
  "AdAccount_dump a =
     JObj [(''id'', JStr (acct_id a)), (''name'', JStr (acct_name a)),
           (''currency'', JStr (acct_currency a)), (''timezone'', JStr (acct_timezone a)),
           (''status'', JStr (acct_status a)), (''created_at'', JStr (acct_created_at a)),
           (''updated_at'', JStr (acct_updated_at a))]"

record LocationTargeting =
  loc_type :: string
  loc_value :: string
  loc_radius :: "int option"

definition location_type_values :: "string list" where
  "location_type_values = [''city'', ''region'', ''country'', ''postal_code'']"

definition LocationTargeting_validate :: "pylib \<Rightarrow> (string \<times> json) list \<Rightarrow> LocationTargeting validated" where
  "LocationTargeting_validate L kw =
     (let f1 = required kw ''type'' (v_literal location_type_values);
          f2 = required kw ''value'' v_str;
          f3 = with_default kw ''radius'' None (v_optional (v_int L))
      in if isl f1 \<or> isl f2 \<or> isl f3 then Inl (errs f1 @ errs f2 @ errs f3)
         else Inr \<lparr>loc_type = projr f1, loc_value = projr f2, loc_radius = projr f3\<rparr>)"

definition LocationTargeting_dump :: "LocationTargeting \<Rightarrow> json" where
  "LocationTargeting_dump x =
     JObj [(''type'', JStr (loc_type x)), (''value'', JStr (loc_value x)),
           (''radius'', of_opt JInt (loc_radius x))]"

record DemographicTargeting =
  age_min :: "int option"
  age_max :: "int option"
  genders :: "string list option"

definition gender_values :: "string list" where
  "gender_values = [''male'', ''female'', ''all'']"

definition DemographicTargeting_validate :: "pylib \<Rightarrow> (string \<times> json) list \<Rightarrow> DemographicTargeting validated" where
  "DemographicTargeting_validate L kw =
     (let f1 = with_default kw ''age_min'' None (v_optional (v_int L));
          f2 = with_default kw ''age_max'' None (v_optional (v_int L));
          f3 = with_default kw ''genders'' None (v_optional (v_list (v_literal gender_values)))
      in if isl f1 \<or> isl f2 \<or> isl f3 then Inl (errs f1 @ errs f2 @ errs f3)
         else Inr \<lparr>age_min = projr f1, age_max = projr f2, genders = projr f3\<rparr>)"

definition DemographicTargeting_dump :: "DemographicTargeting \<Rightarrow> json" where
  "DemographicTargeting_dump x =
     JObj [(''age_min'', of_opt JInt (age_min x)), (''age_max'', of_opt JInt (age_max x)),
           (''genders'', of_opt of_strs (genders x))]"

record CampaignTargeting =
  locations :: "LocationTargeting list option"
  demographics :: "DemographicTargeting option"
  interests :: "string list option"
  behaviors :: "string list option"

definition CampaignTargeting_validate :: "pylib \<Rightarrow> (string \<times> json) list \<Rightarrow> CampaignTargeting validated" where
  "CampaignTargeting_validate L kw =
     (let f1 = with_default kw ''locations'' None
                 (v_optional (v_list (v_model (LocationTargeting_validate L))));
          f2 = with_default kw ''demographics'' None
                 (v_optional (v_model (DemographicTargeting_validate L)));
          f3 = with_default kw ''interests'' None (v_optional (v_list v_str));
          f4 = with_default kw ''behaviors'' None (v_optional (v_list v_str))
      in if isl f1 \<or> isl f2 \<or> isl f3 \<or> isl f4 then Inl (errs f1 @ errs f2 @ errs f3 @ errs f4)
         else Inr \<lparr>locations = projr f1, demographics = projr f2, interests = projr f3,
                   behaviors = projr f4\<rparr>)"

definition CampaignTargeting_dump :: "CampaignTargeting \<Rightarrow> json" where
  "CampaignTargeting_dump x =
     JObj [(''locations'', of_opt (\<lambda>ls. JList (map LocationTargeting_dump ls)) (locations x)),
           (''demographics'', of_opt DemographicTargeting_dump (demographics x)),
           (''interests'', of_opt of_strs (interests x)),
           (''behaviors'', of_opt of_strs (behaviors x))]"

record CreativeAsset =
  asset_id :: string
  asset_type :: string
  asset_url :: "string option"
  asset_text :: "string option"
  asset_dimensions :: "(string \<times> int) list option"

definition asset_type_values :: "string list" where
  "asset_type_values = [''image'', ''video'', ''text'']"

definition CreativeAsset_validate :: "pylib \<Rightarrow> (string \<times> json) list \<Rightarrow> CreativeAsset validated" where
  "CreativeAsset_validate L kw =
     (let f1 = required kw ''id'' v_str;
          f2 = required kw ''type'' (v_literal asset_type_values);
          f3 = with_default kw ''url'' None (v_optional v_str);
          f4 = with_default kw ''text'' None (v_optional v_str);
          f5 = with_default kw ''dimensions'' None (v_optional (v_dict (v_int L)))
      in if isl f1 \<or> isl f2 \<or> isl f3 \<or> isl f4 \<or> isl f5
         then Inl (errs f1 @ errs f2 @ errs f3 @ errs f4 @ errs f5)
         else Inr \<lparr>asset_id = projr f1, asset_type = projr f2, asset_url = projr f3,
                   asset_text = projr f4, asset_dimensions = projr f5\<rparr>)"

definition CreativeAsset_dump :: "CreativeAsset \<Rightarrow> json" where
  "CreativeAsset_dump x =
     JObj [(''id'', JStr (asset_id x)), (''type'', JStr (asset_type x)),
           (''url'', of_opt JStr (asset_url x)), (''text'', of_opt JStr (asset_text x)),
           (''dimensions'', of_opt (\<lambda>d. JObj (map (\<lambda>(k, i). (k, JInt i)) d)) (asset_dimensions x))]"

record CreativeSpec =
  spec_id :: string
  spec_name :: string
  spec_type :: string
  assets :: "CreativeAsset list"

definition spec_type_values :: "string list" where
  "spec_type_values = [''image'', ''video'', ''carousel'']"

definition CreativeSpec_validate :: "pylib \<Rightarrow> (string \<times> json) list \<Rightarrow> CreativeSpec validated" where
  "CreativeSpec_validate L kw =
     (let f1 = required kw ''id'' v_str;
          f2 = required kw ''name'' v_str;
          f3 = required kw ''type'' (v_literal spec_type_values);
          f4 = required kw ''assets'' (v_list (v_model (CreativeAsset_validate L)))
      in if isl f1 \<or> isl f2 \<or> isl f3 \<or> isl f4 then Inl (errs f1 @ errs f2 @ errs f3 @ errs f4)
         else Inr \<lparr>spec_id = projr f1, spec_name = projr f2, spec_type = projr f3,
                   assets = projr f4\<rparr>)"

definition CreativeSpec_dump :: "CreativeSpec \<Rightarrow> json" where
  "CreativeSpec_dump x =
     JObj [(''id'', JStr (spec_id x)), (''name'', JStr (spec_name x)),
           (''type'', JStr (spec_type x)), (''assets'', JList (map CreativeAsset_dump (assets x)))]"

record Campaign =
  camp_id :: string
  camp_name :: string
  camp_status :: string
  camp_objective :: string
  budget_type :: string
  daily_budget :: "rat option"
  lifetime_budget :: "rat option"
  start_time :: string
  end_time :: "string option"
  camp_created_at :: string
  camp_updated_at :: string
  targeting :: "CampaignTargeting option"
  creative_specs :: "CreativeSpec list option"

definition campaign_status_values :: "string list" where
  "campaign_status_values = [''ACTIVE'', ''PAUSED'', ''ARCHIVED'', ''DRAFT'']"

definition budget_type_values :: "string list" where
  "budget_type_values = [''DAILY'', ''LIFETIME'']"

definition Campaign_validate :: "pylib \<Rightarrow> (string \<times> json) list \<Rightarrow> Campaign validated" where
  "Campaign_validate L kw =
     (let f1 = required kw ''id'' v_str;
          f2 = required kw ''name'' v_str;
          f3 = required kw ''status'' (v_literal campaign_status_values);
          f4 = required kw ''objective'' v_str;
          f5 = required kw ''budget_type'' (v_literal budget_type_values);
          f6 = with_default kw ''daily_budget'' None (v_optional (v_float L));
          f7 = with_default kw ''lifetime_budget'' None (v_optional (v_float L));
          f8 = required kw ''start_time'' v_str;
          f9 = with_default kw ''end_time'' None (v_optional v_str);
          f10 = required kw ''created_at'' v_str;
          f11 = required kw ''updated_at'' v_str;
          f12 = with_default kw ''targeting'' None
                  (v_optional (v_model (CampaignTargeting_validate L)));
          f13 = with_default kw ''creative_specs'' None
                  (v_optional (v_list (v_model (CreativeSpec_validate L))))
      in if isl f1 \<or> isl f2 \<or> isl f3 \<or> isl f4 \<or> isl f5 \<or> isl f6 \<or> isl f7 \<or> isl f8 \<or>
            isl f9 \<or> isl f10 \<or> isl f11 \<or> isl f12 \<or> isl f13
         then Inl (errs f1 @ errs f2 @ errs f3 @ errs f4 @ errs f5 @ errs f6 @ errs f7 @
                   errs f8 @ errs f9 @ errs f10 @ errs f11 @ errs f12 @ errs f13)
         else Inr \<lparr>camp_id = projr f1, camp_name = projr f2, camp_status = projr f3,
                   camp_objective = projr f4, budget_type = projr f5, daily_budget = projr f6,
                   lifetime_budget = projr f7, start_time = projr f8, end_time = projr f9,
                   camp_created_at = projr f10, camp_updated_at = projr f11,
                   targeting = projr f12, creative_specs = projr f13\<rparr>)"

definition Campaign_dump :: "Campaign \<Rightarrow> json" where
  "Campaign_dump c =
     JObj [(''id'', JStr (camp_id c)), (''name'', JStr (camp_name c)),
           (''status'', JStr (camp_status c)), (''objective'', JStr (camp_objective c)),
           (''budget_type'', JStr (budget_type c)),
           (''daily_budget'', of_opt JFloat (daily_budget c)),
           (''lifetime_budget'', of_opt JFloat (lifetime_budget c)),
           (''start_time'', JStr (start_time c)), (''end_time'', of_opt JStr (end_time c)),
           (''created_at'', JStr (camp_created_at c)), (''updated_at'', JStr (camp_updated_at c)),
           (''targeting'', of_opt CampaignTargeting_dump (targeting c)),
           (''creative_specs'', of_opt (\<lambda>xs. JList (map CreativeSpec_dump xs)) (creative_specs c))]"

record CampaignStatsBreakdown =
  bd_date :: string
  bd_impressions :: int
  bd_clicks :: int
  bd_spend :: rat
  bd_conversions :: int

definition CampaignStatsBreakdown_validate :: "pylib \<Rightarrow> (string \<times> json) list \<Rightarrow> CampaignStatsBreakdown validated" where
  "CampaignStatsBreakdown_validate L kw =
     (let f1 = required kw ''date'' v_str;
          f2 = required kw ''impressions'' (v_int L);
          f3 = required kw ''clicks'' (v_int L);
          f4 = required kw ''spend'' (v_float L);
          f5 = required kw ''conversions'' (v_int L)
      in if isl f1 \<or> isl f2 \<or> isl f3 \<or> isl f4 \<or> isl f5
         then Inl (errs f1 @ errs f2 @ errs f3 @ errs f4 @ errs f5)
         else Inr \<lparr>bd_date = projr f1, bd_impressions = projr f2, bd_clicks = projr f3,
                   bd_spend = projr f4, bd_conversions = projr f5\<rparr>)"

definition CampaignStatsBreakdown_dump :: "CampaignStatsBreakdown \<Rightarrow> json" where
  "CampaignStatsBreakdown_dump x =
     JObj [(''date'', JStr (bd_date x)), (''impressions'', JInt (bd_impressions x)),
           (''clicks'', JInt (bd_clicks x)), (''spend'', JFloat (bd_spend x)),
           (''conversions'', JInt (bd_conversions x))]"

record CampaignStats =
  stats_campaign_id :: string
  impressions :: int
  clicks :: int
  spend :: rat
  conversions :: int
  ctr :: rat
  cpm :: rat
  cpc :: rat
  conversion_rate :: rat
  date_range :: "(string \<times> string) list"
  breakdown :: "CampaignStatsBreakdown list option"

definition CampaignStats_validate :: "pylib \<Rightarrow> (string \<times> json) list \<Rightarrow> CampaignStats validated" where
  "CampaignStats_validate L kw =
     (let f1 = required kw ''campaign_id'' v_str;
          f2 = required kw ''impressions'' (v_int L);
          f3 = required kw ''clicks'' (v_int L);
          f4 = required kw ''spend'' (v_float L);
          f5 = required kw ''conversions'' (v_int L);
          f6 = required kw ''ctr'' (v_float L);
          f7 = required kw ''cpm'' (v_float L);
          f8 = required kw ''cpc'' (v_float L);
          f9 = required kw ''conversion_rate'' (v_float L);
          f10 = required kw ''date_range'' (v_dict v_str);
          f11 = with_default kw ''breakdown'' None
                  (v_optional (v_list (v_model (CampaignStatsBreakdown_validate L))))
      in if isl f1 \<or> isl f2 \<or> isl f3 \<or> isl f4 \<or> isl f5 \<or> isl f6 \<or> isl f7 \<or> isl f8 \<or>
            isl f9 \<or> isl f10 \<or> isl f11
         then Inl (errs f1 @ errs f2 @ errs f3 @ errs f4 @ errs f5 @ errs f6 @ errs f7 @
                   errs f8 @ errs f9 @ errs f10 @ errs f11)
         else Inr \<lparr>stats_campaign_id = projr f1, impressions = projr f2, clicks = projr f3,
                   spend = projr f4, conversions = projr f5, ctr = projr f6, cpm = projr f7,
                   cpc = projr f8, conversion_rate = projr f9, date_range = projr f10,
                   breakdown = projr f11\<rparr>)"

definition CampaignStats_dump :: "CampaignStats \<Rightarrow> json" where
  "CampaignStats_dump x =
     JObj [(''campaign_id'', JStr (stats_campaign_id x)), (''impressions'', JInt (impressions x)),
           (''clicks'', JInt (clicks x)), (''spend'', JFloat (spend x)),
           (''conversions'', JInt (conversions x)), (''ctr'', JFloat (ctr x)),
           (''cpm'', JFloat (cpm x)), (''cpc'', JFloat (cpc x)),
           (''conversion_rate'', JFloat (conversion_rate x)),
           (''date_range'', JObj (map (\<lambda>(k, v). (k, JStr v)) (date_range x))),
           (''breakdown'',
              of_opt (\<lambda>xs. JList (map CampaignStatsBreakdown_dump xs)) (breakdown x))]"

section \<open>types.py: the arguments of the tools\<close>

record GetCampaignsArgs =
  ca_ad_account_id :: string
  ca_limit :: "int option"
  ca_offset :: "int option"
  ca_status :: "string option"

definition GetCampaignsArgs_validate :: "pylib \<Rightarrow> (string \<times> json) list \<Rightarrow> GetCampaignsArgs validated" where
  "GetCampaignsArgs_validate L kw =
     (let f1 = required kw ''ad_account_id'' v_str;
          f2 = with_default kw ''limit'' (Some 50) (v_optional (v_int L));
          f3 = with_default kw ''offset'' (Some 0) (v_optional (v_int L));
          f4 = with_default kw ''status'' None (v_optional (v_literal options_status_values))
      in if isl f1 \<or> isl f2 \<or> isl f3 \<or> isl f4 then Inl (errs f1 @ errs f2 @ errs f3 @ errs f4)
         else Inr \<lparr>ca_ad_account_id = projr f1, ca_limit = projr f2, ca_offset = projr f3,
                   ca_status = projr f4\<rparr>)"

record GetCampaignDetailsArgs =
  cd_ad_account_id :: string
  cd_campaign_id :: string

definition GetCampaignDetailsArgs_validate :: "(string \<times> json) list \<Rightarrow> GetCampaignDetailsArgs validated" where
  "GetCampaignDetailsArgs_validate kw =
     (let f1 = required kw ''ad_account_id'' v_str;
          f2 = required kw ''campaign_id'' v_str
      in if isl f1 \<or> isl f2 then Inl (errs f1 @ errs f2)
         else Inr \<lparr>cd_ad_account_id = projr f1, cd_campaign_id = projr f2\<rparr>)"

record GetCampaignStatsArgs =
  cs_ad_account_id :: string
  cs_campaign_ids :: "string list"
  cs_start_date :: string
  cs_end_date :: string
  cs_metrics :: "string list option"

definition GetCampaignStatsArgs_validate :: "(string \<times> json) list \<Rightarrow> GetCampaignStatsArgs validated" where
  "GetCampaignStatsArgs_validate kw =
     (let f1 = required kw ''ad_account_id'' v_str;
          f2 = required kw ''campaign_ids'' (v_list v_str);
          f3 = required kw ''start_date'' v_str;
          f4 = required kw ''end_date'' v_str;
          f5 = with_default kw ''metrics'' None (v_optional (v_list v_str))
      in if isl f1 \<or> isl f2 \<or> isl f3 \<or> isl f4 \<or> isl f5
         then Inl (errs f1 @ errs f2 @ errs f3 @ errs f4 @ errs f5)
         else Inr \<lparr>cs_ad_account_id = projr f1, cs_campaign_ids = projr f2, cs_start_date = projr f3,
                   cs_end_date = projr f4, cs_metrics = projr f5\<rparr>)"

text \<open>
  \<^verbatim>\<open>Model(**data)\<close>: \<^verbatim>\<open>**\<close> unpacks a dictionary only (a \<^verbatim>\<open>TypeError\<close> otherwise), and the
  model raises a \<^verbatim>\<open>ValidationError\<close> under its own name when a field fails.
\<close>

definition construct :: "string \<Rightarrow> ((string \<times> json) list \<Rightarrow> 'a validated) \<Rightarrow> json \<Rightarrow> exn + 'a" where
  "construct title validate data =
     (case data of
        JObj kw \<Rightarrow> (case validate kw of Inl es \<Rightarrow> Inl (ValidationError title es) | Inr x \<Rightarrow> Inr x)
      | _ \<Rightarrow> Inl (TypeError data))"

section \<open>uber\_ads\_client.py: the query of get\_campaigns\<close>

text \<open>Lines 146 to 157: \<^verbatim>\<open>params = {}\<close>, then one \<^verbatim>\<open>if options.f: params["f"] = options.f\<close>
  per parameter, in this order.\<close>

definition set_if_truthy :: "(string \<times> json) list \<Rightarrow> string \<Rightarrow> json \<Rightarrow> (string \<times> json) list" where
  "set_if_truthy params k v = (if truthy v then dict_set params k v else params)"

definition get_campaigns_params :: "GetCampaignsOptions \<Rightarrow> (string \<times> json) list" where
  "get_campaigns_params options =
     (let params = [];
          params = set_if_truthy params ''limit'' (of_opt_int (limit options));
          params = set_if_truthy params ''offset'' (of_opt_int (offset options));
          params = set_if_truthy params ''status'' (of_opt_str (status options));
          params = set_if_truthy params ''sort_by'' (of_opt_str (sort_by options));
          params = set_if_truthy params ''sort_order'' (of_opt_str (sort_order options))
      in params)"

text \<open>What the query holds for a field: the field's value when it is set and truthy.\<close>

definition sent_int :: "int option \<Rightarrow> json option" where
  "sent_int x = (case x of None \<Rightarrow> None | Some i \<Rightarrow> if i = 0 then None else Some (JInt i))"

definition sent_str :: "string option \<Rightarrow> json option" where
  "sent_str x = (case x of None \<Rightarrow> None | Some s \<Rightarrow> Some (JStr s))"

section \<open>uber\_ads\_client.py: the session and its retry strategy\<close>

record UberAdsConfig =
  client_id :: "string option"
  client_secret :: "string option"
  base_url :: string

text \<open>
  \<^verbatim>\<open>Retry(total=3, backoff_factor=1, status_forcelist=[...])\<close> of urllib3, with the methods
  of the class that the connection pool calls around each attempt. Only \<open>total\<close> is
  set, so it is the one counter that \<open>increment\<close> lowers and \<open>is_exhausted\<close> tests;
  \<open>n\<close> is the number of failed attempts so far.
\<close>

record Retry =
  total :: int
  backoff_factor :: nat
  status_forcelist :: "nat list"

definition allowed_methods :: "string list" where
  "allowed_methods = [''DELETE'', ''GET'', ''HEAD'', ''OPTIONS'', ''PUT'', ''TRACE'']"

definition RETRY_AFTER_STATUS_CODES :: "nat list" where
  "RETRY_AFTER_STATUS_CODES = [413, 429, 503]"

definition is_retry :: "Retry \<Rightarrow> string \<Rightarrow> nat \<Rightarrow> bool \<Rightarrow> bool" where
  "is_retry retries method code has_retry_after =
     (if method \<notin> set allowed_methods then False
      else if status_forcelist retries \<noteq> [] \<and> code \<in> set (status_forcelist retries) then True
      else (total retries \<noteq> 0 \<and> has_retry_after \<and> code \<in> set RETRY_AFTER_STATUS_CODES))"

definition increment :: "Retry \<Rightarrow> Retry" where
  "increment retries = retries\<lparr>total := total retries - 1\<rparr>"

definition is_exhausted :: "Retry \<Rightarrow> bool" where
  "is_exhausted retries = (total retries < 0)"

definition get_backoff_time :: "Retry \<Rightarrow> nat \<Rightarrow> nat" where
  "get_backoff_time retries n =
     (if n \<le> 1 then 0 else min 120 (backoff_factor retries * 2 ^ (n - 1)))"

text \<open>The pause before the next attempt: a non-zero \<^verbatim>\<open>Retry-After\<close> of the response when
  there is one, the backoff time otherwise.\<close>

definition sleep_time :: "Retry \<Rightarrow> nat \<Rightarrow> nat option \<Rightarrow> nat" where
  "sleep_time retries n header =
     (case header of
        Some s \<Rightarrow> if s \<noteq> 0 then s else get_backoff_time retries n
      | None \<Rightarrow> get_backoff_time retries n)"

record PreparedRequest =
  req_method :: string
  req_url :: string
  req_params :: "(string \<times> json) list"
  req_headers :: "(string \<times> string) list"
  req_timeout :: nat

text \<open>
  The remote side answers each attempt of a request with a response or not at all (a
  refused connection, a timeout). What the session did is a list of events: each attempt
  sent and each pause in seconds.
\<close>

datatype attempt = Answered Response | Unreachable string

datatype event = Sent PreparedRequest | Slept nat

type_synonym server = "PreparedRequest \<Rightarrow> nat \<Rightarrow> attempt"

definition after :: "event list \<Rightarrow> 'a \<times> event list \<Rightarrow> 'a \<times> event list" where
  "after evs r = (fst r, evs @ snd r)"

text \<open>
  The loop of \<^verbatim>\<open>urlopen\<close> under the adapter of requests: a failed connection or a
  response that \<open>is_retry\<close> selects lowers the counter; an exhausted counter ends the call
  with the exception requests makes of urllib3's \<^verbatim>\<open>MaxRetryError\<close>, otherwise the
  session sleeps and sends again. Any other response is returned.
\<close>

function urlopen :: "Retry \<Rightarrow> PreparedRequest \<Rightarrow> (nat \<Rightarrow> attempt) \<Rightarrow> nat \<Rightarrow> (exn + Response) \<times> event list" where
  "urlopen retries req answers n =
     (case answers n of
        Unreachable why \<Rightarrow>
          (if is_exhausted (increment retries) then (Inl (ConnectionError why), [Sent req])
           else after [Sent req, Slept (sleep_time (increment retries) (Suc n) None)]
                  (urlopen (increment retries) req answers (Suc n)))
      | Answered response \<Rightarrow>
          (if is_retry retries (req_method req) (status_code response) (retry_after response \<noteq> None)
           then (if is_exhausted (increment retries) then (Inl (RetryError response), [Sent req])
                 else after [Sent req,
                             Slept (sleep_time (increment retries) (Suc n) (retry_after response))]
                        (urlopen (increment retries) req answers (Suc n)))
           else (Inr response, [Sent req])))"
  by pat_completeness auto
termination
  by (relation "measure (\<lambda>(retries, req, answers, n). nat (total retries))")
     (auto simp: increment_def is_exhausted_def)

declare urlopen.simps [simp del]

record UberAdsClient =
  config :: UberAdsConfig
  access_token :: string
  retry_strategy :: Retry
  session_headers :: "(string \<times> string) list"

text \<open>Line 41: the token is a literal of the source.\<close>

definition hardcoded_token :: string where
  "hardcoded_token = ''IA.AQAAAATlHYAkrhJsBvg2h_K7dmXYDF_9LQAe8gEiCkd7Wyd79AB36AmskjmnMMPtDOwrWBgnGuHNb0Esrh2dScncw8weNgx5kjMNtxP88XJSdDzjfdOmcWe3Zvc0rHx-p5ldHqmXvDvUnjndiPqXigz_yg332ek6b_dmR-1KRus''"

text \<open>\<^verbatim>\<open>UberAdsClient.__init__\<close>, lines 39 to 59.\<close>

definition UberAdsClient_init :: "UberAdsConfig \<Rightarrow> UberAdsClient" where
  "UberAdsClient_init cfg =
     \<lparr>config = cfg,
      access_token = hardcoded_token,
      retry_strategy = \<lparr>total = 3, backoff_factor = 1,
                         status_forcelist = [429, 500, 502, 503, 504]\<rparr>,
      session_headers = [(''Content-Type'', ''application/json''),
                         (''Accept'', ''application/json''),
                         (''Authorization'', ''Bearer '' @ hardcoded_token)]\<rparr>"

text \<open>\<^verbatim>\<open>self.session.request(method, url, timeout=30, **kwargs)\<close>: the session's headers go
  with the request, and the mounted adapter retries.\<close>

definition session_request :: "UberAdsClient \<Rightarrow> server \<Rightarrow> string \<Rightarrow> string \<Rightarrow> (string \<times> json) list \<Rightarrow> (exn + Response) \<times> event list" where
  "session_request client srv method url' params =
     (let req = \<lparr>req_method = method, req_url = url', req_params = params,
                 req_headers = session_headers client, req_timeout = 30\<rparr>
      in urlopen (retry_strategy client) req (srv req) 0)"

section \<open>uber\_ads\_client.py: \_make\_request\<close>

text \<open>Sequencing of statements that may raise: the first exception ends the block.\<close>

definition and_then :: "exn + 'a \<Rightarrow> ('a \<Rightarrow> exn + 'b) \<Rightarrow> exn + 'b" where
  "and_then r f = (case r of Inl e \<Rightarrow> Inl e | Inr x \<Rightarrow> f x)"

text \<open>\<^verbatim>\<open>d.get(k, default)\<close>: only a dictionary has the method.\<close>

definition dict_get :: "json \<Rightarrow> string \<Rightarrow> json \<Rightarrow> exn + json" where
  "dict_get d k dflt =
     (case d of
        JObj kvs \<Rightarrow> Inr (case map_of kvs k of None \<Rightarrow> dflt | Some v \<Rightarrow> v)
      | _ \<Rightarrow> Inl (AttributeError d ''get''))"

text \<open>\<^verbatim>\<open>response.json()\<close>.\<close>

definition Response_json :: "Response \<Rightarrow> exn + json" where
  "Response_json r =
     (case json_body r of None \<Rightarrow> Inl (JSONDecodeError (content r)) | Some j \<Rightarrow> Inr j)"

text \<open>\<^verbatim>\<open>raise_for_status\<close> raises for the statuses 400 to 599, and the truth value of a
  response (\<^verbatim>\<open>Response.__bool__\<close>, which is \<^verbatim>\<open>ok\<close>) is that it does not raise.\<close>

definition raises_for_status :: "Response \<Rightarrow> bool" where
  "raises_for_status r = (400 \<le> status_code r \<and> status_code r < 600)"

definition Response_bool :: "Response \<Rightarrow> bool" where
  "Response_bool r = (\<not> raises_for_status r)"

text \<open>An object in an f-string.\<close>

definition fmt :: "pylib \<Rightarrow> json \<Rightarrow> string" where
  "fmt L j = (case j of JStr s \<Rightarrow> s | _ \<Rightarrow> py_str L j)"

text \<open>Lines 77 to 85, the body of the \<^verbatim>\<open>try\<close>.\<close>

definition make_request_try :: "UberAdsClient \<Rightarrow> server \<Rightarrow> string \<Rightarrow> string \<Rightarrow> (string \<times> json) list \<Rightarrow> (exn + json) \<times> event list" where
  "make_request_try client srv method url' params =
     (case session_request client srv method url' params of
        (Inl e, evs) \<Rightarrow> (Inl e, evs)
      | (Inr response, evs) \<Rightarrow>
          (if raises_for_status response then Inl (HTTPError response)
           else if content response = [] then Inr (JObj [])
           else Response_json response, evs))"

text \<open>Lines 88 to 93, for \<^verbatim>\<open>e.response\<close> being \<open>r\<close>: the status code and the message of the
  error to raise. The bare \<^verbatim>\<open>except:\<close> turns any failure of the extraction into
  \<^verbatim>\<open>str(e)\<close>.\<close>

definition http_error_status :: "Response \<Rightarrow> nat option" where
  "http_error_status r = (if Response_bool r then Some (status_code r) else None)"

definition http_error_message :: "pylib \<Rightarrow> Response \<Rightarrow> string" where
  "http_error_message L r =
     (case and_then (if Response_bool r then Response_json r else Inr (JObj []))
             (\<lambda>error_data. and_then (dict_get error_data ''error'' (JObj []))
                (\<lambda>err. dict_get err ''message'' (JStr (http_error_msg r)))) of
        Inl e \<Rightarrow> http_error_msg r
      | Inr error_message \<Rightarrow> fmt L error_message)"

text \<open>Lines 75 to 100. An exception that neither \<^verbatim>\<open>except\<close> clause names goes on.\<close>

definition make_request :: "pylib \<Rightarrow> UberAdsClient \<Rightarrow> server \<Rightarrow> string \<Rightarrow> string \<Rightarrow> (string \<times> json) list \<Rightarrow> (exn + json) \<times> event list" where
  "make_request L client srv method endpoint params =
     (case make_request_try client srv method (base_url (config client) @ endpoint) params of
        (Inl (HTTPError r), evs) \<Rightarrow>
          (Inl (UberAdsAPIError (''Uber Ads API error: '' @ http_error_message L r)
                  (http_error_status r)), evs)
      | (Inl e, evs) \<Rightarrow>
          (if is_RequestException e
           then Inl (UberAdsAPIError (''Request error: '' @ str_exn L e) None)
           else Inl e, evs)
      | (Inr j, evs) \<Rightarrow> (Inr j, evs))"

section \<open>uber\_ads\_client.py: the public operations\<close>

text \<open>A list comprehension over constructor calls: the first exception ends it.\<close>

fun construct_all :: "(json \<Rightarrow> exn + 'a) \<Rightarrow> json list \<Rightarrow> exn + 'a list" where
  "construct_all mk [] = Inr []"
| "construct_all mk (x # xs) =
     and_then (mk x) (\<lambda>y. and_then (construct_all mk xs) (\<lambda>ys. Inr (y # ys)))"

text \<open>The three lines that each list operation has after its request (115 to 120, 167 to
  172, 251 to 256), for the constructor \<open>mk\<close> of its entity.\<close>

definition normalize :: "(json \<Rightarrow> exn + 'a) \<Rightarrow> json \<Rightarrow> exn + 'a list" where
  "normalize mk response_data =
     and_then (dict_get response_data ''data'' response_data)
       (\<lambda>data. case data of
                  JList xs \<Rightarrow> construct_all mk xs
                | _ \<Rightarrow> and_then (mk data) (\<lambda>x. Inr [x]))"

text \<open>\<^verbatim>\<open>except Exception as e: raise UberAdsAPIError(f"Failed to retrieve ...: {str(e)}")\<close>:
  no status code is passed.\<close>

definition failed_to_retrieve :: "pylib \<Rightarrow> string \<Rightarrow> exn + 'a \<Rightarrow> exn + 'a" where
  "failed_to_retrieve L what r =
     (case r of
        Inl e \<Rightarrow> Inl (UberAdsAPIError (''Failed to retrieve '' @ what @ '': '' @ str_exn L e) None)
      | Inr x \<Rightarrow> Inr x)"

definition get_ad_accounts :: "pylib \<Rightarrow> UberAdsClient \<Rightarrow> server \<Rightarrow> (exn + AdAccount list) \<times> event list" where
  "get_ad_accounts L client srv =
     (case make_request L client srv ''GET'' ''/v1/ads'' [] of
        (r, evs) \<Rightarrow>
          (failed_to_retrieve L ''ad accounts''
             (and_then r (normalize (construct ''AdAccount'' AdAccount_validate))), evs))"

definition get_campaigns :: "pylib \<Rightarrow> UberAdsClient \<Rightarrow> server \<Rightarrow> string \<Rightarrow> GetCampaignsOptions option \<Rightarrow> (exn + Campaign list) \<times> event list" where
  "get_campaigns L client srv ad_account_id options =
     (let options = (case options of None \<Rightarrow> GetCampaignsOptions_default | Some given \<Rightarrow> given);
          params = get_campaigns_params options
      in case make_request L client srv ''GET'' (''/v1/ads/'' @ ad_account_id @ ''/campaigns'') params of
           (r, evs) \<Rightarrow>
             (failed_to_retrieve L ''campaigns''
                (and_then r (normalize (construct ''Campaign'' (Campaign_validate L)))), evs))"

definition get_campaign_details :: "pylib \<Rightarrow> UberAdsClient \<Rightarrow> server \<Rightarrow> string \<Rightarrow> string \<Rightarrow> (exn + Campaign) \<times> event list" where
  "get_campaign_details L client srv ad_account_id campaign_id =
     (case make_request L client srv ''GET''
             (''/v1/ads/'' @ ad_account_id @ ''/campaigns/'' @ campaign_id) [] of
        (r, evs) \<Rightarrow>
          (failed_to_retrieve L ''campaign details''
             (and_then r (\<lambda>response_data.
                and_then (dict_get response_data ''data'' response_data)
                  (construct ''Campaign'' (Campaign_validate L)))), evs))"

text \<open>\<^verbatim>\<open>params.setdefault(k, []).append(x)\<close>.\<close>

definition setdefault_append :: "(string \<times> json) list \<Rightarrow> string \<Rightarrow> json \<Rightarrow> (string \<times> json) list" where
  "setdefault_append params k x =
     (case map_of params k of
        Some (JList xs) \<Rightarrow> dict_set params k (JList (xs @ [x]))
      | _ \<Rightarrow> dict_set params k (JList [x]))"

definition get_campaign_stats_params :: "string list \<Rightarrow> string \<Rightarrow> string \<Rightarrow> string list option \<Rightarrow> (string \<times> json) list" where
  "get_campaign_stats_params campaign_ids start_date end_date metrics =
     (let params = [(''start_date'', JStr start_date), (''end_date'', JStr end_date)];
          params = foldl (\<lambda>ps campaign_id. setdefault_append ps ''campaign_ids'' (JStr campaign_id))
                     params campaign_ids;
          params = (if truthy (of_opt of_strs metrics)
                    then foldl (\<lambda>ps metric. setdefault_append ps ''metrics'' (JStr metric))
                           params (case metrics of None \<Rightarrow> [] | Some ms \<Rightarrow> ms)
                    else params)
      in params)"

definition get_campaign_stats :: "pylib \<Rightarrow> UberAdsClient \<Rightarrow> server \<Rightarrow> string \<Rightarrow> string list \<Rightarrow> string \<Rightarrow> string \<Rightarrow> string list option \<Rightarrow> (exn + CampaignStats list) \<times> event list" where
  "get_campaign_stats L client srv ad_account_id campaign_ids start_date end_date metrics =
     (case make_request L client srv ''GET'' (''/v1/ads/'' @ ad_account_id @ ''/reports/campaigns'')
             (get_campaign_stats_params campaign_ids start_date end_date metrics) of
        (r, evs) \<Rightarrow>
          (failed_to_retrieve L ''campaign stats''
             (and_then r (normalize (construct ''CampaignStats'' (CampaignStats_validate L)))), evs))"

section \<open>server.py: the tool handlers\<close>

text \<open>\<^verbatim>\<open>_load_config\<close>, lines 49 to 55, for the environment as \<^verbatim>\<open>os.getenv\<close> reads it.\<close>

definition load_config :: "(string \<Rightarrow> string option) \<Rightarrow> UberAdsConfig" where
  "load_config getenv =
     \<lparr>client_id = getenv ''UBER_CLIENT_ID'',
      client_secret = getenv ''UBER_CLIENT_SECRET'',
      base_url = (case getenv ''UBER_BASE_URL'' of None \<Rightarrow> ''https://api.uber.com'' | Some u \<Rightarrow> u)\<rparr>"

record TextContent =
  tc_type :: string
  tc_text :: string

record CallToolResult =
  result_content :: "TextContent list"
  isError :: bool

definition text_result :: "string \<Rightarrow> CallToolResult" where
  "text_result t = \<lparr>result_content = [\<lparr>tc_type = ''text'', tc_text = t\<rparr>], isError = False\<rparr>"

definition error_result :: "string \<Rightarrow> CallToolResult" where
  "error_result t = \<lparr>result_content = [\<lparr>tc_type = ''text'', tc_text = t\<rparr>], isError = True\<rparr>"

text \<open>
  The \<^verbatim>\<open>except\<close> clauses of a handler, in the order of the source:
  \<^verbatim>\<open>ValidationError\<close>, \<^verbatim>\<open>UberAdsAPIError\<close>, then \<^verbatim>\<open>Exception\<close>. The handler of
  get\_ad\_accounts has no clause for \<^verbatim>\<open>ValidationError\<close>.
\<close>

definition except_clauses :: "pylib \<Rightarrow> bool \<Rightarrow> string \<Rightarrow> exn + CallToolResult \<Rightarrow> exn + CallToolResult" where
  "except_clauses L with_validation what body =
     (case body of
        Inr result \<Rightarrow> Inr result
      | Inl (ValidationError title es) \<Rightarrow>
          Inr (error_result
                 ((if with_validation then ''Invalid arguments: '' else ''Unexpected error: '') @
                  str_exn L (ValidationError title es)))
      | Inl (UberAdsAPIError message sc) \<Rightarrow>
          Inr (error_result (''Error retrieving '' @ what @ '': '' @ message))
      | Inl e \<Rightarrow> Inr (error_result (''Unexpected error: '' @ str_exn L e)))"

text \<open>The success branch: \<^verbatim>\<open>json.dumps\<close> of the dumped entities.\<close>

definition dumped :: "pylib \<Rightarrow> json \<Rightarrow> exn + CallToolResult" where
  "dumped L result_data = Inr (text_result (json_dumps L result_data))"

definition handle_get_ad_accounts :: "pylib \<Rightarrow> UberAdsClient \<Rightarrow> server \<Rightarrow> (exn + CallToolResult) \<times> event list" where
  "handle_get_ad_accounts L client srv =
     (case get_ad_accounts L client srv of
        (r, evs) \<Rightarrow>
          (except_clauses L False ''ad accounts''
             (and_then r (\<lambda>ad_accounts. dumped L (JList (map AdAccount_dump ad_accounts)))), evs))"

definition handle_get_campaigns :: "pylib \<Rightarrow> UberAdsClient \<Rightarrow> server \<Rightarrow> (string \<times> json) list \<Rightarrow> (exn + CallToolResult) \<times> event list" where
  "handle_get_campaigns L client srv arguments =
     (case construct ''GetCampaignsArgs'' (GetCampaignsArgs_validate L) (JObj arguments) of
        Inl e \<Rightarrow> (except_clauses L True ''campaigns'' (Inl e), [])
      | Inr args \<Rightarrow>
          (let options = \<lparr>limit = ca_limit args, offset = ca_offset args, status = ca_status args,
                          objective = None, sort_by = None, sort_order = None\<rparr>
           in case get_campaigns L client srv (ca_ad_account_id args) (Some options) of
                (r, evs) \<Rightarrow>
                  (except_clauses L True ''campaigns''
                     (and_then r (\<lambda>campaigns. dumped L (JList (map Campaign_dump campaigns)))),
                   evs)))"

definition handle_get_campaign_details :: "pylib \<Rightarrow> UberAdsClient \<Rightarrow> server \<Rightarrow> (string \<times> json) list \<Rightarrow> (exn + CallToolResult) \<times> event list" where
  "handle_get_campaign_details L client srv arguments =
     (case construct ''GetCampaignDetailsArgs'' GetCampaignDetailsArgs_validate (JObj arguments) of
        Inl e \<Rightarrow> (except_clauses L True ''campaign details'' (Inl e), [])
      | Inr args \<Rightarrow>
          (case get_campaign_details L client srv (cd_ad_account_id args) (cd_campaign_id args) of
             (r, evs) \<Rightarrow>
               (except_clauses L True ''campaign details''
                  (and_then r (\<lambda>campaign. dumped L (Campaign_dump campaign))), evs)))"

definition handle_get_campaign_stats :: "pylib \<Rightarrow> UberAdsClient \<Rightarrow> server \<Rightarrow> (string \<times> json) list \<Rightarrow> (exn + CallToolResult) \<times> event list" where
  "handle_get_campaign_stats L client srv arguments =
     (case construct ''GetCampaignStatsArgs'' GetCampaignStatsArgs_validate (JObj arguments) of
        Inl e \<Rightarrow> (except_clauses L True ''campaign stats'' (Inl e), [])
      | Inr args \<Rightarrow>
          (case get_campaign_stats L client srv (cs_ad_account_id args) (cs_campaign_ids args)
                  (cs_start_date args) (cs_end_date args) (cs_metrics args) of
             (r, evs) \<Rightarrow>
               (except_clauses L True ''campaign stats''
                  (and_then r (\<lambda>stats. dumped L (JList (map CampaignStats_dump stats)))), evs)))"

section \<open>server.py: call\_tool\<close>

text \<open>
  Lines 377 to 409. \<open>server_instance\<close> is the module's instance (line 275): its client is
  built from the environment once. The \<^verbatim>\<open>except Exception\<close> of \<^verbatim>\<open>call_tool\<close> turns an
  exception of a handler into a result.
\<close>

definition server_instance :: "(string \<Rightarrow> string option) \<Rightarrow> UberAdsClient" where
  "server_instance getenv = UberAdsClient_init (load_config getenv)"

definition dispatch :: "pylib \<Rightarrow> UberAdsClient \<Rightarrow> server \<Rightarrow> string \<Rightarrow> (string \<times> json) list \<Rightarrow> (exn + CallToolResult) \<times> event list" where
  "dispatch L client srv name arguments =
     (if name = ''get_ad_accounts'' then handle_get_ad_accounts L client srv
      else if name = ''get_campaigns'' then handle_get_campaigns L client srv arguments
      else if name = ''get_campaign_details'' then handle_get_campaign_details L client srv arguments
      else if name = ''get_campaign_stats'' then handle_get_campaign_stats L client srv arguments
      else (Inr (error_result (''Unknown tool: '' @ name)), []))"

definition call_tool :: "pylib \<Rightarrow> (string \<Rightarrow> string option) \<Rightarrow> server \<Rightarrow> string \<Rightarrow> (string \<times> json) list \<Rightarrow> (exn + CallToolResult) \<times> event list" where
  "call_tool L getenv srv name arguments =
     (case dispatch L (server_instance getenv) srv name arguments of
        (Inl e, evs) \<Rightarrow> (Inr (error_result (''Tool execution failed: '' @ str_exn L e)), evs)
      | (Inr result, evs) \<Rightarrow> (Inr result, evs))"

section \<open>Observations and sample inputs\<close>

text \<open>The number of attempts among the events of a call, and its pauses in order.\<close>

fun attempts :: "event list \<Rightarrow> nat" where
  "attempts [] = 0"
| "attempts (Sent r # evs) = Suc (attempts evs)"
| "attempts (Slept s # evs) = attempts evs"

fun pauses :: "event list \<Rightarrow> nat list" where
  "pauses [] = []"
| "pauses (Sent r # evs) = pauses evs"
| "pauses (Slept s # evs) = s # pauses evs"

text \<open>An attempt that fails transiently: no connection, or a status of the force list.\<close>

definition transient :: "Retry \<Rightarrow> attempt \<Rightarrow> bool" where
  "transient retries a =
     (case a of Unreachable why \<Rightarrow> True
      | Answered r \<Rightarrow> status_code r \<in> set (status_forcelist retries))"

text \<open>A library record for concrete runs: it converts nothing, words an entry of a
  validation error by its type and every other text as the empty string.\<close>

definition plain_lib :: pylib where
  "plain_lib = \<lparr>lax_int = (\<lambda>j. None), lax_float = (\<lambda>j. None), error_wording = (\<lambda>ty j. ty),
     py_str = (\<lambda>j. []), exc_str = (\<lambda>e. []), json_dumps = (\<lambda>j. [])\<rparr>"

definition resp_503 :: Response where
  "resp_503 = \<lparr>status_code = 503, reason = ''Service Unavailable'', url = ''https://api.uber.com/v1/ads'',
     retry_after = None, content = [], json_body = None\<rparr>"

definition resp_404 :: Response where
  "resp_404 = \<lparr>status_code = 404, reason = ''Not Found'',
     url = ''https://api.uber.com/v1/ads/acct-1/campaigns?limit=50'', retry_after = None,
     content = ''{\"error\": {\"message\": \"Campaign not found\"}}'',
     json_body = Some (JObj [(''error'', JObj [(''message'', JStr ''Campaign not found'')])])\<rparr>"

text \<open>The requests among the events, and the three headers of the session.\<close>

fun sent_requests :: "event list \<Rightarrow> PreparedRequest list" where
  "sent_requests [] = []"
| "sent_requests (Sent r # evs) = r # sent_requests evs"
| "sent_requests (Slept s # evs) = sent_requests evs"

definition carries_headers :: "PreparedRequest \<Rightarrow> bool" where
  "carries_headers req =
     (map_of (req_headers req) ''Authorization'' = Some (''Bearer '' @ hardcoded_token) \<and>
      map_of (req_headers req) ''Accept'' = Some ''application/json'' \<and>
      map_of (req_headers req) ''Content-Type'' = Some ''application/json'')"

text \<open>The text of a result, the names \<^verbatim>\<open>call_tool\<close> knows, and the result of a call whose
  arguments failed validation with the entries \<open>es\<close>: an error result and no event.\<close>

definition result_text :: "CallToolResult \<Rightarrow> string" where
  "result_text r = concat (map tc_text (result_content r))"

definition tool_names :: "string list" where
  "tool_names = [''get_ad_accounts'', ''get_campaigns'', ''get_campaign_details'', ''get_campaign_stats'']"

definition invalid_arguments :: "pylib \<Rightarrow> string \<Rightarrow> error_detail list \<Rightarrow> (exn + CallToolResult) \<times> event list" where
  "invalid_arguments L title es =
     (Inr (error_result (''Invalid arguments: '' @ str_ValidationError L title es)), [])"

text \<open>The remote side answers the first attempt of every request with \<open>r\<close>; a 2xx
  status; and what \<^verbatim>\<open>_make_request\<close> returns for a response it accepts (lines 82 to 85): the
  empty dictionary for an empty body, the decoded body otherwise.\<close>

definition received :: "server \<Rightarrow> Response \<Rightarrow> bool" where
  "received srv r = (\<forall>req. srv req 0 = Answered r)"

definition success :: "Response \<Rightarrow> bool" where
  "success r = (200 \<le> status_code r \<and> status_code r < 300)"

definition body_of :: "Response \<Rightarrow> json option" where
  "body_of r = (if content r = [] then Some (JObj []) else json_body r)"

text \<open>Sample responses and a sample campaign, as the remote side sends it and as the entity
  it validates to.\<close>

definition resp_empty :: Response where
  "resp_empty = \<lparr>status_code = 200, reason = ''OK'', url = ''https://api.uber.com/v1/ads/acct-1/campaigns'',
     retry_after = None, content = [], json_body = None\<rparr>"

definition resp_json :: "string \<Rightarrow> json \<Rightarrow> Response" where
  "resp_json body j = \<lparr>status_code = 200, reason = ''OK'',
     url = ''https://api.uber.com/v1/ads/acct-1/campaigns'', retry_after = None,
     content = body, json_body = Some j\<rparr>"

definition campaign_c1 :: json where
  "campaign_c1 = JObj [(''id'', JStr ''c1''), (''name'', JStr ''Camp A''), (''status'', JStr ''ACTIVE''),
     (''objective'', JStr ''reach''), (''budget_type'', JStr ''DAILY''), (''daily_budget'', JInt 25),
     (''start_time'', JStr ''2024-01-01T00:00:00Z''), (''created_at'', JStr ''2023-12-01T00:00:00Z''),
     (''updated_at'', JStr ''2023-12-02T00:00:00Z''), (''ad_groups'', JList [])]"

definition entity_c1 :: Campaign where
  "entity_c1 = \<lparr>camp_id = ''c1'', camp_name = ''Camp A'', camp_status = ''ACTIVE'',
     camp_objective = ''reach'', budget_type = ''DAILY'', daily_budget = Some 25,
     lifetime_budget = None, start_time = ''2024-01-01T00:00:00Z'', end_time = None,
     camp_created_at = ''2023-12-01T00:00:00Z'', camp_updated_at = ''2023-12-02T00:00:00Z'',
     targeting = None, creative_specs = None\<rparr>"

text \<open>The entries of a validation error for the empty dictionary: each required field is
  missing.\<close>

definition missing_in_empty :: "string list \<Rightarrow> error_detail list" where
  "missing_in_empty ks = map (\<lambda>k. ([k], ''missing'', JObj [])) ks"

text \<open>\<^verbatim>\<open>response_data.get("data", response_data)\<close> for a body that is a dictionary.\<close>

definition unwrapped :: "(string \<times> json) list \<Rightarrow> json" where
  "unwrapped kvs = (case map_of kvs ''data'' of None \<Rightarrow> JObj kvs | Some d \<Rightarrow> d)"

text \<open>
  The declarations of the three argument records read as rules: the name of a field,
  whether it is required (it has no default), and the values its type rejects. A rule is
  violated by a mapping that lacks a required field or holds a rejected value under the
  field's name.
\<close>

type_synonym field_rule = "string \<times> bool \<times> (json \<Rightarrow> bool)"

definition GetCampaignsArgs_fields :: "pylib \<Rightarrow> field_rule list" where
  "GetCampaignsArgs_fields L =
     [(''ad_account_id'', True, \<lambda>j. isl (v_str j)),
      (''limit'', False, \<lambda>j. isl (v_optional (v_int L) j)),
      (''offset'', False, \<lambda>j. isl (v_optional (v_int L) j)),
      (''status'', False, \<lambda>j. isl (v_optional (v_literal options_status_values) j))]"

definition GetCampaignDetailsArgs_fields :: "field_rule list" where
  "GetCampaignDetailsArgs_fields =
     [(''ad_account_id'', True, \<lambda>j. isl (v_str j)),
      (''campaign_id'', True, \<lambda>j. isl (v_str j))]"

definition GetCampaignStatsArgs_fields :: "field_rule list" where
  "GetCampaignStatsArgs_fields =
     [(''ad_account_id'', True, \<lambda>j. isl (v_str j)),
      (''campaign_ids'', True, \<lambda>j. isl (v_list v_str j)),
      (''start_date'', True, \<lambda>j. isl (v_str j)),
      (''end_date'', True, \<lambda>j. isl (v_str j)),
      (''metrics'', False, \<lambda>j. isl (v_optional (v_list v_str) j))]"

definition violated :: "(string \<times> json) list \<Rightarrow> field_rule \<Rightarrow> bool" where
  "violated kw f =
     (case f of (k, is_required, rejects) \<Rightarrow>
        (case map_of kw k of None \<Rightarrow> is_required | Some j \<Rightarrow> rejects j))"

text \<open>
  What validation establishes of an entity: each enumerated field holds one of its
  literals, in the campaign and in every nested record. \<open>opt_all\<close> lifts a property to an
  optional field.
\<close>

definition opt_all :: "('a \<Rightarrow> bool) \<Rightarrow> 'a option \<Rightarrow> bool" where
  "opt_all P x = (case x of None \<Rightarrow> True | Some y \<Rightarrow> P y)"

definition LocationTargeting_ok :: "LocationTargeting \<Rightarrow> bool" where
  "LocationTargeting_ok x = (loc_type x \<in> set location_type_values)"

definition DemographicTargeting_ok :: "DemographicTargeting \<Rightarrow> bool" where
  "DemographicTargeting_ok x = opt_all (list_all (\<lambda>g. g \<in> set gender_values)) (genders x)"

definition CampaignTargeting_ok :: "CampaignTargeting \<Rightarrow> bool" where
  "CampaignTargeting_ok x =
     (opt_all (list_all LocationTargeting_ok) (locations x) \<and>
      opt_all DemographicTargeting_ok (demographics x))"

definition CreativeAsset_ok :: "CreativeAsset \<Rightarrow> bool" where
  "CreativeAsset_ok x = (asset_type x \<in> set asset_type_values)"

definition CreativeSpec_ok :: "CreativeSpec \<Rightarrow> bool" where
  "CreativeSpec_ok x = (spec_type x \<in> set spec_type_values \<and> list_all CreativeAsset_ok (assets x))"

definition Campaign_ok :: "Campaign \<Rightarrow> bool" where
  "Campaign_ok c =
     (camp_status c \<in> set campaign_status_values \<and>
      budget_type c \<in> set budget_type_values \<and>
      opt_all CampaignTargeting_ok (targeting c) \<and>
      opt_all (list_all CreativeSpec_ok) (creative_specs c))"

text \<open>Each value a validator accepts has the property.\<close>

definition ensures :: "('i \<Rightarrow> 'a validated) \<Rightarrow> ('a \<Rightarrow> bool) \<Rightarrow> bool" where
  "ensures v P = (\<forall>j x. v j = Inr x \<longrightarrow> P x)"

text \<open>A campaign with targeting and a creative, as the remote side sends it (with a field
  the model does not declare) and as the entity it validates to.\<close>

definition campaign_full :: "(string \<times> json) list" where
  "campaign_full =
     [(''id'', JStr ''c2''), (''name'', JStr ''Camp B''), (''status'', JStr ''PAUSED''),
      (''objective'', JStr ''traffic''), (''budget_type'', JStr ''LIFETIME''),
      (''lifetime_budget'', JInt 900), (''start_time'', JStr ''2024-02-01T00:00:00Z''),
      (''end_time'', JStr ''2024-03-01T00:00:00Z''),
      (''created_at'', JStr ''2024-01-15T00:00:00Z''), (''updated_at'', JStr ''2024-01-16T00:00:00Z''),
      (''targeting'', JObj [
         (''locations'', JList [JObj [(''type'', JStr ''city''), (''value'', JStr ''Lyon''),
                                      (''radius'', JInt 10)]]),
         (''demographics'', JObj [(''age_min'', JInt 18), (''genders'', JList [JStr ''all''])]),
         (''interests'', JList [JStr ''food''])]),
      (''creative_specs'', JList [JObj [
         (''id'', JStr ''s1''), (''name'', JStr ''Banner''), (''type'', JStr ''image''),
         (''assets'', JList [JObj [(''id'', JStr ''a1''), (''type'', JStr ''image''),
                                   (''url'', JStr ''https://example.org/a1.png''),
                                   (''dimensions'', JObj [(''width'', JInt 300),
                                                          (''height'', JInt 250)])]])]]),
      (''created_by_email'', JStr ''someone@example.org'')]"

definition entity_full :: Campaign where
  "entity_full =
     \<lparr>camp_id = ''c2'', camp_name = ''Camp B'', camp_status = ''PAUSED'',
      camp_objective = ''traffic'', budget_type = ''LIFETIME'', daily_budget = None,
      lifetime_budget = Some 900, start_time = ''2024-02-01T00:00:00Z'',
      end_time = Some ''2024-03-01T00:00:00Z'',
      camp_created_at = ''2024-01-15T00:00:00Z'', camp_updated_at = ''2024-01-16T00:00:00Z'',
      targeting = Some
        \<lparr>locations = Some [\<lparr>loc_type = ''city'', loc_value = ''Lyon'', loc_radius = Some 10\<rparr>],
         demographics = Some \<lparr>age_min = Some 18, age_max = None, genders = Some [''all'']\<rparr>,
         interests = Some [''food''], behaviors = None\<rparr>,
      creative_specs = Some
        [\<lparr>spec_id = ''s1'', spec_name = ''Banner'', spec_type = ''image'',
          assets = [\<lparr>asset_id = ''a1'', asset_type = ''image'',
                     asset_url = Some ''https://example.org/a1.png'', asset_text = None,
                     asset_dimensions = Some [(''width'', 300), (''height'', 250)]\<rparr>]\<rparr>]\<rparr>"

section \<open>Properties of the query\<close>

lemma map_of_dict_set:
  "map_of (dict_set d k v) k' = (if k' = k then Some v else map_of d k')"
  by (induction d k v rule: dict_set.induct) auto

lemma map_of_set_if_truthy:
  "map_of (set_if_truthy d k v) k' =
     (if k' = k \<and> truthy v then Some v else map_of d k')"
  by (simp add: set_if_truthy_def map_of_dict_set)

lemma in_literal_nonempty:
  "in_literal allowed (Some s) \<Longrightarrow> [] \<notin> set allowed \<Longrightarrow> s \<noteq> []"
  by (auto simp: in_literal_def)

lemma truthy_of_opt_int: "truthy (of_opt_int x) = (sent_int x \<noteq> None)"
  by (cases x) (simp_all add: of_opt_int_def sent_int_def)

lemma sent_int_value: "truthy (of_opt_int x) \<Longrightarrow> sent_int x = Some (of_opt_int x)"
  by (cases x) (simp_all add: of_opt_int_def sent_int_def)

lemma sent_int_none: "\<not> truthy (of_opt_int x) \<Longrightarrow> sent_int x = None"
  by (cases x) (simp_all add: of_opt_int_def sent_int_def)

lemma sent_str_value:
  "in_literal allowed x \<Longrightarrow> [] \<notin> set allowed \<Longrightarrow>
     (if truthy (of_opt_str x) then Some (of_opt_str x) else None) = sent_str x"
  by (cases x) (auto simp: of_opt_str_def sent_str_def in_literal_def)

text \<open>
  C1 (as stated, refuted). The claim has the default offset 0 sent in the query whenever it
  is present in the options record. The record built by \<^verbatim>\<open>GetCampaignsOptions()\<close> is valid
  and has offset 0 set, and the query built from it has no \<^verbatim>\<open>offset\<close> key:
  \<^verbatim>\<open>if options.offset:\<close> is false for 0.
\<close>

theorem C1_default_offset_omitted:
  "GetCampaignsOptions_valid GetCampaignsOptions_default \<and>
   offset GetCampaignsOptions_default = Some 0 \<and>
   map_of (get_campaigns_params GetCampaignsOptions_default) ''offset'' = None \<and>
   get_campaigns_params GetCampaignsOptions_default = [(''limit'', JInt 50)]"
  by (simp add: GetCampaignsOptions_valid_def GetCampaignsOptions_default_def in_literal_def
      get_campaigns_params_def set_if_truthy_def of_opt_int_def of_opt_str_def)

text \<open>
  C1 (amended). For every valid options record, the query of get\_campaigns holds exactly
  those of limit, offset, status, sort\_by, sort\_order that are set and truthy: an integer
  parameter is sent when it is set and not 0 (so the default limit 50 is sent and the
  default offset 0 is not), a string parameter is sent when it is set, each with the value
  of the field, and there is no other key.
\<close>

theorem C1_query_parameters:
  assumes "GetCampaignsOptions_valid options"
  shows "map_of (get_campaigns_params options) ''limit'' = sent_int (limit options) \<and>
    map_of (get_campaigns_params options) ''offset'' = sent_int (offset options) \<and>
    map_of (get_campaigns_params options) ''status'' = sent_str (status options) \<and>
    map_of (get_campaigns_params options) ''sort_by'' = sent_str (sort_by options) \<and>
    map_of (get_campaigns_params options) ''sort_order'' = sent_str (sort_order options) \<and>
    (\<forall>k. k \<notin> {''limit'', ''offset'', ''status'', ''sort_by'', ''sort_order''} \<longrightarrow>
       map_of (get_campaigns_params options) k = None)"
proof -
  have st: "in_literal options_status_values (status options)"
    and sb: "in_literal sort_by_values (sort_by options)"
    and so: "in_literal sort_order_values (sort_order options)"
    using assms by (simp_all add: GetCampaignsOptions_valid_def)
  have ne: "[] \<notin> set options_status_values" "[] \<notin> set sort_by_values"
    "[] \<notin> set sort_order_values"
    by (simp_all add: options_status_values_def sort_by_values_def sort_order_values_def)
  note s1 = sent_str_value [OF st ne(1)]
  note s2 = sent_str_value [OF sb ne(2)]
  note s3 = sent_str_value [OF so ne(3)]
  have 1: "map_of (get_campaigns_params options) ''limit'' = sent_int (limit options)"
    by (simp add: get_campaigns_params_def map_of_set_if_truthy sent_int_value sent_int_none)
  have 2: "map_of (get_campaigns_params options) ''offset'' = sent_int (offset options)"
    by (simp add: get_campaigns_params_def map_of_set_if_truthy sent_int_value sent_int_none)
  have 3: "map_of (get_campaigns_params options) ''status'' = sent_str (status options)"
    using s1 by (auto simp: get_campaigns_params_def map_of_set_if_truthy split: if_splits)
  have 4: "map_of (get_campaigns_params options) ''sort_by'' = sent_str (sort_by options)"
    using s2 by (auto simp: get_campaigns_params_def map_of_set_if_truthy split: if_splits)
  have 5: "map_of (get_campaigns_params options) ''sort_order'' = sent_str (sort_order options)"
    using s3 by (auto simp: get_campaigns_params_def map_of_set_if_truthy split: if_splits)
  have 6: "map_of (get_campaigns_params options) k = None"
    if "k \<notin> {''limit'', ''offset'', ''status'', ''sort_by'', ''sort_order''}" for k
    using that by (simp add: get_campaigns_params_def map_of_set_if_truthy)
  from 1 2 3 4 5 6 show ?thesis by blast
qed

text \<open>The amended claim at a record with every kind of field: a zero limit (omitted), a
  non-zero offset, a status and a sort order (sent), no sort key, and an objective, which
  is never a query parameter.\<close>

theorem C1_query_parameters_witness:
  "GetCampaignsOptions_valid
     \<lparr>limit = Some 0, offset = Some 20, status = Some ''PAUSED'', objective = Some ''reach'',
      sort_by = None, sort_order = Some ''desc''\<rparr> \<and>
   map_of (get_campaigns_params
     \<lparr>limit = Some 0, offset = Some 20, status = Some ''PAUSED'', objective = Some ''reach'',
      sort_by = None, sort_order = Some ''desc''\<rparr>) ''limit'' = None \<and>
   map_of (get_campaigns_params
     \<lparr>limit = Some 0, offset = Some 20, status = Some ''PAUSED'', objective = Some ''reach'',
      sort_by = None, sort_order = Some ''desc''\<rparr>) ''offset'' = Some (JInt 20) \<and>
   map_of (get_campaigns_params
     \<lparr>limit = Some 0, offset = Some 20, status = Some ''PAUSED'', objective = Some ''reach'',
      sort_by = None, sort_order = Some ''desc''\<rparr>) ''status'' = Some (JStr ''PAUSED'') \<and>
   map_of (get_campaigns_params
     \<lparr>limit = Some 0, offset = Some 20, status = Some ''PAUSED'', objective = Some ''reach'',
      sort_by = None, sort_order = Some ''desc''\<rparr>) ''objective'' = None"
proof -
  have v: "GetCampaignsOptions_valid
     \<lparr>limit = Some 0, offset = Some 20, status = Some ''PAUSED'', objective = Some ''reach'',
      sort_by = None, sort_order = Some ''desc''\<rparr>"
    by (simp add: GetCampaignsOptions_valid_def in_literal_def options_status_values_def
        sort_by_values_def sort_order_values_def)
  show ?thesis
    using v C1_query_parameters [OF v] by (simp add: sent_int_def sent_str_def)
qed

section \<open>Properties of the retry loop\<close>

lemma attempts_append: "attempts (xs @ ys) = attempts xs + attempts ys"
  by (induction xs rule: attempts.induct) auto

lemma attempts_after: "attempts (snd (after evs r)) = attempts evs + attempts (snd r)"
  by (simp add: after_def attempts_append)

lemma fst_after: "fst (after evs r) = fst r"
  by (simp add: after_def)

lemma urlopen_always_transient:
  "0 \<le> total retries \<Longrightarrow> req_method req \<in> set allowed_methods \<Longrightarrow>
   (\<forall>m. n \<le> m \<longrightarrow> transient retries (answers m)) \<Longrightarrow>
   attempts (snd (urlopen retries req answers n)) = nat (total retries) + 1 \<and>
   isl (fst (urlopen retries req answers n))"
proof (induction retries req answers n rule: urlopen.induct)
  case (1 retries req answers n)
  have tr: "transient retries (answers n)" using "1.prems" by simp
  show ?case
  proof (cases "is_exhausted (increment retries)")
    case True
    then have "total retries = 0" using "1.prems"(1) by (simp add: is_exhausted_def increment_def)
    with True tr "1.prems"(2) show ?thesis
      by (subst (1 2) urlopen.simps)
         (auto simp: transient_def is_retry_def split: attempt.splits)
  next
    case False
    then have pos: "0 \<le> total (increment retries)" "nat (total retries) = Suc (nat (total (increment retries)))"
      by (simp_all add: is_exhausted_def increment_def)
    have fl: "status_forcelist (increment retries) = status_forcelist retries"
      by (simp add: increment_def)
    have "transient (increment retries) a = transient retries a" for a
      by (cases a) (simp_all add: transient_def fl)
    then have nx: "\<forall>m. Suc n \<le> m \<longrightarrow> transient (increment retries) (answers m)"
      using "1.prems"(3) by simp
    show ?thesis
    proof (cases "answers n")
      case (Unreachable why)
      from "1.IH"(2) [OF Unreachable False pos(1) "1.prems"(2) nx] Unreachable False pos(2)
      show ?thesis
        by (subst (1 2) urlopen.simps) (simp add: attempts_after fst_after)
    next
      case (Answered response)
      then have r: "is_retry retries (req_method req) (status_code response) (retry_after response \<noteq> None)"
        using tr "1.prems"(2) by (auto simp: transient_def is_retry_def)
      from "1.IH"(1) [OF Answered r False pos(1) "1.prems"(2) nx] Answered False pos(2) r
      show ?thesis
        by (subst (1 2) urlopen.simps) (simp add: attempts_after fst_after)
    qed
  qed
qed


lemma backoff_increment: "get_backoff_time (increment retries) k = get_backoff_time retries k"
  by (simp add: get_backoff_time_def increment_def)

lemma pauses_after: "pauses (snd (after evs r)) = pauses evs @ pauses (snd r)"
  by (simp add: after_def) (induction evs rule: pauses.induct, auto)

lemma urlopen_pauses:
  "0 \<le> total retries \<Longrightarrow> req_method req \<in> set allowed_methods \<Longrightarrow>
   (\<forall>m. n \<le> m \<longrightarrow> transient retries (answers m)) \<Longrightarrow>
   (\<forall>m r. answers m = Answered r \<longrightarrow> retry_after r = None) \<Longrightarrow>
   pauses (snd (urlopen retries req answers n)) =
     map (get_backoff_time retries) [Suc n ..< Suc n + nat (total retries)]"
proof (induction retries req answers n rule: urlopen.induct)
  case (1 retries req answers n)
  have tr: "transient retries (answers n)" using "1.prems" by simp
  show ?case
  proof (cases "is_exhausted (increment retries)")
    case True
    then have "total retries = 0" using "1.prems"(1) by (simp add: is_exhausted_def increment_def)
    with True tr "1.prems"(2) show ?thesis
      by (subst urlopen.simps)
         (auto simp: transient_def is_retry_def split: attempt.splits)
  next
    case False
    then have pos: "0 \<le> total (increment retries)" "nat (total retries) = Suc (nat (total (increment retries)))"
      by (simp_all add: is_exhausted_def increment_def)
    have fl: "status_forcelist (increment retries) = status_forcelist retries"
      by (simp add: increment_def)
    have "transient (increment retries) a = transient retries a" for a
      by (cases a) (simp_all add: transient_def fl)
    then have nx: "\<forall>m. Suc n \<le> m \<longrightarrow> transient (increment retries) (answers m)"
      using "1.prems"(3) by simp
    have up: "[Suc n ..< Suc (n + nat (total retries))] =
        Suc n # [Suc (Suc n) ..< Suc (Suc (n + nat (total (increment retries))))]"
      using pos(2) by (simp add: upt_conv_Cons del: upt_Suc)
    show ?thesis
    proof (cases "answers n")
      case (Unreachable why)
      from "1.IH"(2) [OF Unreachable False pos(1) "1.prems"(2) nx "1.prems"(4)] Unreachable False
      show ?thesis
        by (subst urlopen.simps)
           (simp add: pauses_after up backoff_increment sleep_time_def del: upt_Suc)
    next
      case (Answered response)
      then have r: "is_retry retries (req_method req) (status_code response) (retry_after response \<noteq> None)"
        using tr "1.prems"(2) by (auto simp: transient_def is_retry_def)
      have ra: "retry_after response = None" using Answered "1.prems"(4) by simp
      from "1.IH"(1) [OF Answered r False pos(1) "1.prems"(2) nx "1.prems"(4)] Answered False r ra
      show ?thesis
        by (subst urlopen.simps)
           (simp add: pauses_after up backoff_increment sleep_time_def del: upt_Suc)
    qed
  qed
qed

lemma urlopen_once:
  "answers n = Answered r \<Longrightarrow>
   \<not> is_retry retries (req_method req) (status_code r) (retry_after r \<noteq> None) \<Longrightarrow>
   urlopen retries req answers n = (Inr r, [Sent req])"
  by (subst urlopen.simps) simp


lemma urlopen_raises:
  "fst (urlopen retries req answers n) = Inl e \<Longrightarrow>
   (\<exists>why. e = ConnectionError why) \<or> (\<exists>r. e = RetryError r)"
proof (induction retries req answers n rule: urlopen.induct)
  case (1 retries req answers n)
  show ?case
  proof (cases "answers n")
    case (Unreachable why)
    show ?thesis
    proof (cases "is_exhausted (increment retries)")
      case True
      with Unreachable "1.prems" show ?thesis by (subst (asm) urlopen.simps) auto
    next
      case False
      from "1.prems" Unreachable False
      have "fst (urlopen (increment retries) req answers (Suc n)) = Inl e"
        by (subst (asm) urlopen.simps) (simp add: fst_after)
      with "1.IH"(2) [OF Unreachable False] show ?thesis by simp
    qed
  next
    case (Answered response)
    show ?thesis
    proof (cases "is_retry retries (req_method req) (status_code response) (retry_after response \<noteq> None)")
      case r: True
      show ?thesis
      proof (cases "is_exhausted (increment retries)")
        case True
        with Answered r "1.prems" show ?thesis by (subst (asm) urlopen.simps) auto
      next
        case False
        from "1.prems" Answered False r
        have "fst (urlopen (increment retries) req answers (Suc n)) = Inl e"
          by (subst (asm) urlopen.simps) (simp add: fst_after)
        with "1.IH"(1) [OF Answered r False] show ?thesis by simp
      qed
    next
      case False
      with Answered "1.prems" show ?thesis by (subst (asm) urlopen.simps) auto
    qed
  qed
qed

lemma snd_make_request:
  "snd (make_request L client srv method endpoint params) =
   snd (session_request client srv method (base_url (config client) @ endpoint) params)"
  by (simp add: make_request_def make_request_try_def split: prod.splits sum.splits exn.splits)

lemma make_request_session_raises:
  assumes "fst (session_request client srv method (base_url (config client) @ endpoint) params) = Inl e"
  shows "\<exists>msg. fst (make_request L client srv method endpoint params) = Inl (UberAdsAPIError msg None)"
proof -
  obtain evs where sr:
    "session_request client srv method (base_url (config client) @ endpoint) params = (Inl e, evs)"
    using assms by (cases "session_request client srv method (base_url (config client) @ endpoint) params") auto
  from assms have "(\<exists>why. e = ConnectionError why) \<or> (\<exists>r. e = RetryError r)"
    unfolding session_request_def Let_def by (rule urlopen_raises)
  then show ?thesis using sr by (auto simp: make_request_def make_request_try_def)
qed

lemma make_request_client_error:
  "fst (session_request client srv method (base_url (config client) @ endpoint) params) = Inr r \<Longrightarrow>
   raises_for_status r \<Longrightarrow>
   \<exists>msg sc. fst (make_request L client srv method endpoint params) = Inl (UberAdsAPIError msg sc)"
  by (auto simp: make_request_def make_request_try_def split: prod.splits sum.splits exn.splits)

text \<open>
  C2 (as stated, refuted). Against a remote side that answers 503 to every attempt, the
  client of the server instance sends the request four times, not three, before
  \<^verbatim>\<open>_make_request\<close> raises: \<^verbatim>\<open>total=3\<close> is the number of retries urllib3 allows after the
  first attempt.
\<close>

theorem C2_four_attempts:
  "attempts (snd (make_request plain_lib (server_instance (\<lambda>v. None)) (\<lambda>req n. Answered resp_503)
      ''GET'' ''/v1/ads'' [])) = 4 \<and>
   fst (make_request plain_lib (server_instance (\<lambda>v. None)) (\<lambda>req n. Answered resp_503)
      ''GET'' ''/v1/ads'' []) = Inl (UberAdsAPIError ''Request error: '' None)"
  by (simp add: make_request_def make_request_try_def session_request_def server_instance_def
      UberAdsClient_init_def load_config_def urlopen.simps is_retry_def allowed_methods_def
      resp_503_def is_exhausted_def increment_def after_def plain_lib_def Let_def)

text \<open>
  C2 (amended). A GET request of the client whose every attempt fails transiently (one of
  the statuses 429, 500, 502, 503, 504, or no connection) is sent exactly 4 times, the
  first attempt and 3 retries, before \<^verbatim>\<open>_make_request\<close> raises an
  \<^verbatim>\<open>UberAdsAPIError\<close>; when no response carries a \<^verbatim>\<open>Retry-After\<close> header the pauses
  between the attempts are 0, 2 and 4 seconds. A request whose first response has any
  other status, and no \<^verbatim>\<open>Retry-After\<close> header that urllib3 honours (statuses 413, 429,
  503), is sent exactly once, and a 4xx status among them raises an \<^verbatim>\<open>UberAdsAPIError\<close>.
\<close>

theorem C2_retry_policy:
  "((\<forall>req m. transient (retry_strategy (UberAdsClient_init cfg)) (srv req m)) \<longrightarrow>
      attempts (snd (make_request L (UberAdsClient_init cfg) srv ''GET'' endpoint params)) = 4 \<and>
      (\<exists>msg. fst (make_request L (UberAdsClient_init cfg) srv ''GET'' endpoint params) =
                Inl (UberAdsAPIError msg None)) \<and>
      ((\<forall>req m r. srv req m = Answered r \<longrightarrow> retry_after r = None) \<longrightarrow>
         pauses (snd (make_request L (UberAdsClient_init cfg) srv ''GET'' endpoint params)) = [0, 2, 4])) \<and>
   ((\<forall>req. srv' req 0 = Answered r) \<and> status_code r \<notin> set [429, 500, 502, 503, 504] \<and>
    (retry_after r = None \<or> status_code r \<notin> set [413, 429, 503]) \<longrightarrow>
      attempts (snd (make_request L (UberAdsClient_init cfg) srv' ''GET'' endpoint params)) = 1 \<and>
      (400 \<le> status_code r \<and> status_code r < 500 \<longrightarrow>
         (\<exists>msg sc. fst (make_request L (UberAdsClient_init cfg) srv' ''GET'' endpoint params) =
                      Inl (UberAdsAPIError msg sc))))"
proof (intro conjI impI)
  let ?c = "UberAdsClient_init cfg"
  let ?u = "base_url (config ?c) @ endpoint"
  let ?req = "\<lparr>req_method = ''GET'', req_url = ?u, req_params = params,
                 req_headers = session_headers ?c, req_timeout = 30\<rparr>"
  have tot: "total (retry_strategy ?c) = 3" by (simp add: UberAdsClient_init_def)
  have get: "req_method ?req \<in> set allowed_methods" by (simp add: allowed_methods_def)
  have sr: "session_request ?c s ''GET'' ?u params = urlopen (retry_strategy ?c) ?req (s ?req) 0" for s
    by (simp add: session_request_def Let_def)
  {
    assume a: "\<forall>req m. transient (retry_strategy ?c) (srv req m)"
    then have a': "\<forall>m. 0 \<le> m \<longrightarrow> transient (retry_strategy ?c) (srv ?req m)" by simp
    have t0: "0 \<le> total (retry_strategy ?c)" using tot by simp
    note main = urlopen_always_transient [OF t0 get a']
    show "attempts (snd (make_request L ?c srv ''GET'' endpoint params)) = 4"
      using main tot by (simp add: snd_make_request sr)
    from main obtain e where "fst (session_request ?c srv ''GET'' ?u params) = Inl e"
      by (auto simp: sr isl_def)
    then show "\<exists>msg. fst (make_request L ?c srv ''GET'' endpoint params) = Inl (UberAdsAPIError msg None)"
      by (rule make_request_session_raises)
    assume b: "\<forall>req m r. srv req m = Answered r \<longrightarrow> retry_after r = None"
    then have b': "\<forall>m r. srv ?req m = Answered r \<longrightarrow> retry_after r = None" by simp
    have "map (get_backoff_time (retry_strategy ?c)) [Suc 0..<Suc 0 + nat (total (retry_strategy ?c))] =
        [0, 2, 4]"
      by (simp add: upt_conv_Cons get_backoff_time_def UberAdsClient_init_def)
    with urlopen_pauses [OF t0 get a' b']
    show "pauses (snd (make_request L ?c srv ''GET'' endpoint params)) = [0, 2, 4]"
      by (simp only: snd_make_request sr)
  }
  {
    assume h: "(\<forall>req. srv' req 0 = Answered r) \<and> status_code r \<notin> set [429, 500, 502, 503, 504] \<and>
       (retry_after r = None \<or> status_code r \<notin> set [413, 429, 503])"
    then have ans: "srv' ?req 0 = Answered r" by simp
    have nr: "\<not> is_retry (retry_strategy ?c) (req_method ?req) (status_code r) (retry_after r \<noteq> None)"
      using h by (auto simp: is_retry_def UberAdsClient_init_def RETRY_AFTER_STATUS_CODES_def)
    have once: "urlopen (retry_strategy ?c) ?req (srv' ?req) 0 = (Inr r, [Sent ?req])"
      using ans nr by (rule urlopen_once)
    show "attempts (snd (make_request L ?c srv' ''GET'' endpoint params)) = 1"
      using once by (simp add: snd_make_request sr)
    assume "400 \<le> status_code r \<and> status_code r < 500"
    then have "raises_for_status r" by (simp add: raises_for_status_def)
    moreover have "fst (session_request ?c srv' ''GET'' ?u params) = Inr r"
      using once by (simp add: sr)
    ultimately show "\<exists>msg sc. fst (make_request L ?c srv' ''GET'' endpoint params) = Inl (UberAdsAPIError msg sc)"
      by (rule make_request_client_error [rotated])
  }
qed

text \<open>The amended claim against a remote side that always answers 503, and against one
  that answers 404.\<close>

theorem C2_retry_policy_witness:
  "attempts (snd (make_request plain_lib (UberAdsClient_init (load_config (\<lambda>v. None)))
      (\<lambda>req n. Answered resp_503) ''GET'' ''/v1/ads'' [])) = 4 \<and>
   pauses (snd (make_request plain_lib (UberAdsClient_init (load_config (\<lambda>v. None)))
      (\<lambda>req n. Answered resp_503) ''GET'' ''/v1/ads'' [])) = [0, 2, 4] \<and>
   attempts (snd (make_request plain_lib (UberAdsClient_init (load_config (\<lambda>v. None)))
      (\<lambda>req n. Answered resp_404) ''GET'' ''/v1/ads'' [])) = 1 \<and>
   (\<exists>msg sc. fst (make_request plain_lib (UberAdsClient_init (load_config (\<lambda>v. None)))
      (\<lambda>req n. Answered resp_404) ''GET'' ''/v1/ads'' []) = Inl (UberAdsAPIError msg sc))"
  using C2_retry_policy [of "load_config (\<lambda>v. None)" "\<lambda>req n. Answered resp_503" plain_lib
      "''/v1/ads''" "[]" "\<lambda>req n. Answered resp_404" resp_404]
  by (simp add: transient_def UberAdsClient_init_def resp_503_def resp_404_def)

section \<open>Properties of the requests sent\<close>

lemma sent_requests_append: "sent_requests (xs @ ys) = sent_requests xs @ sent_requests ys"
  by (induction xs rule: sent_requests.induct) auto

lemma urlopen_sends_req: "set (sent_requests (snd (urlopen retries req answers n))) \<subseteq> {req}"
proof (induction retries req answers n rule: urlopen.induct)
  case (1 retries req answers n)
  show ?case
    using "1.IH"
    by (subst urlopen.simps)
       (auto simp: after_def sent_requests_append split: attempt.splits)
qed

lemma session_request_headers:
  "list_all carries_headers
     (sent_requests (snd (session_request (UberAdsClient_init cfg) srv method u params)))"
proof -
  let ?req = "\<lparr>req_method = method, req_url = u, req_params = params,
                 req_headers = session_headers (UberAdsClient_init cfg), req_timeout = 30\<rparr>"
  have "carries_headers ?req"
    by (simp add: carries_headers_def UberAdsClient_init_def)
  then show ?thesis
    using urlopen_sends_req [of "retry_strategy (UberAdsClient_init cfg)" ?req "srv ?req" 0]
    by (auto simp: session_request_def Let_def list_all_iff)
qed

lemma snd_get_ad_accounts:
  "snd (get_ad_accounts L client srv) = snd (make_request L client srv ''GET'' ''/v1/ads'' [])"
  by (simp add: get_ad_accounts_def split: prod.splits)

lemma snd_get_campaigns:
  "snd (get_campaigns L client srv a options) =
   snd (make_request L client srv ''GET'' (''/v1/ads/'' @ a @ ''/campaigns'')
          (get_campaigns_params (case options of None \<Rightarrow> GetCampaignsOptions_default | Some given \<Rightarrow> given)))"
  by (simp add: get_campaigns_def Let_def split: prod.splits)

lemma snd_get_campaign_details:
  "snd (get_campaign_details L client srv a c) =
   snd (make_request L client srv ''GET'' (''/v1/ads/'' @ a @ ''/campaigns/'' @ c) [])"
  by (simp add: get_campaign_details_def split: prod.splits)

lemma snd_get_campaign_stats:
  "snd (get_campaign_stats L client srv a ids sd ed ms) =
   snd (make_request L client srv ''GET'' (''/v1/ads/'' @ a @ ''/reports/campaigns'')
          (get_campaign_stats_params ids sd ed ms))"
  by (simp add: get_campaign_stats_def split: prod.splits)

lemma make_request_headers:
  "list_all carries_headers
     (sent_requests (snd (make_request L (UberAdsClient_init cfg) srv method endpoint params)))"
  by (simp only: snd_make_request session_request_headers)

lemma snd_case_pair: "snd (case p of (r, evs) \<Rightarrow> (f r, evs)) = snd p"
  by (cases p) simp

lemma snd_handle_get_ad_accounts:
  "snd (handle_get_ad_accounts L client srv) = snd (make_request L client srv ''GET'' ''/v1/ads'' [])"
  by (simp add: handle_get_ad_accounts_def snd_case_pair snd_get_ad_accounts)

lemma snd_handle_get_campaigns:
  "snd (handle_get_campaigns L client srv arguments) =
     (case construct ''GetCampaignsArgs'' (GetCampaignsArgs_validate L) (JObj arguments) of
        Inl e \<Rightarrow> []
      | Inr args \<Rightarrow>
          snd (make_request L client srv ''GET'' (''/v1/ads/'' @ ca_ad_account_id args @ ''/campaigns'')
                 (get_campaigns_params
                    \<lparr>limit = ca_limit args, offset = ca_offset args, status = ca_status args,
                     objective = None, sort_by = None, sort_order = None\<rparr>)))"
  by (simp add: handle_get_campaigns_def snd_case_pair snd_get_campaigns Let_def split: sum.splits)

lemma snd_handle_get_campaign_details:
  "snd (handle_get_campaign_details L client srv arguments) =
     (case construct ''GetCampaignDetailsArgs'' GetCampaignDetailsArgs_validate (JObj arguments) of
        Inl e \<Rightarrow> []
      | Inr args \<Rightarrow>
          snd (make_request L client srv ''GET''
                 (''/v1/ads/'' @ cd_ad_account_id args @ ''/campaigns/'' @ cd_campaign_id args) []))"
  by (simp add: handle_get_campaign_details_def snd_case_pair snd_get_campaign_details
      split: sum.splits)

lemma snd_handle_get_campaign_stats:
  "snd (handle_get_campaign_stats L client srv arguments) =
     (case construct ''GetCampaignStatsArgs'' GetCampaignStatsArgs_validate (JObj arguments) of
        Inl e \<Rightarrow> []
      | Inr args \<Rightarrow>
          snd (make_request L client srv ''GET''
                 (''/v1/ads/'' @ cs_ad_account_id args @ ''/reports/campaigns'')
                 (get_campaign_stats_params (cs_campaign_ids args) (cs_start_date args)
                    (cs_end_date args) (cs_metrics args))))"
  by (simp add: handle_get_campaign_stats_def snd_case_pair snd_get_campaign_stats
      split: sum.splits)

lemma dispatch_headers:
  "list_all carries_headers
     (sent_requests (snd (dispatch L (UberAdsClient_init cfg) srv name arguments)))"
  by (simp add: dispatch_def snd_handle_get_ad_accounts snd_handle_get_campaigns
        snd_handle_get_campaign_details snd_handle_get_campaign_stats make_request_headers
      split: sum.splits)

lemma snd_call_tool:
  "snd (call_tool L getenv srv name arguments) =
   snd (dispatch L (server_instance getenv) srv name arguments)"
  by (simp add: call_tool_def split: prod.splits sum.splits)

text \<open>
  C8 (as stated, refuted). In an environment where every variable holds the text
  \<^verbatim>\<open>token-of-the-environment\<close>, every field of the configuration record holds it, and the
  \<^verbatim>\<open>Authorization\<close> header of the session still carries the literal of line 41, which
  is a different text: the token is not read from the configuration.
\<close>

theorem C8_token_not_from_environment:
  "client_id (config (server_instance (\<lambda>v. Some ''token-of-the-environment''))) =
     Some ''token-of-the-environment'' \<and>
   client_secret (config (server_instance (\<lambda>v. Some ''token-of-the-environment''))) =
     Some ''token-of-the-environment'' \<and>
   base_url (config (server_instance (\<lambda>v. Some ''token-of-the-environment''))) =
     ''token-of-the-environment'' \<and>
   map_of (session_headers (server_instance (\<lambda>v. Some ''token-of-the-environment'')))
     ''Authorization'' = Some (''Bearer '' @ hardcoded_token) \<and>
   hardcoded_token \<noteq> ''token-of-the-environment''"
  by (simp add: server_instance_def load_config_def UberAdsClient_init_def hardcoded_token_def)


text \<open>
  C8 (amended). For every environment, tool name and argument mapping, every request that
  \<^verbatim>\<open>call_tool\<close> sends carries \<^verbatim>\<open>Authorization: Bearer\<close> followed by the token literal
  of the source, \<^verbatim>\<open>Accept: application/json\<close> and \<^verbatim>\<open>Content-Type: application/json\<close>.
\<close>

theorem C8_request_headers:
  "list_all (\<lambda>req. map_of (req_headers req) ''Authorization'' = Some (''Bearer '' @ hardcoded_token) \<and>
                    map_of (req_headers req) ''Accept'' = Some ''application/json'' \<and>
                    map_of (req_headers req) ''Content-Type'' = Some ''application/json'')
     (sent_requests (snd (call_tool L getenv srv name arguments)))"
  using dispatch_headers [of L "load_config getenv" srv name arguments]
  by (simp add: snd_call_tool server_instance_def carries_headers_def [abs_def])

text \<open>The amended claim at a call of get\_ad\_accounts that is answered 404: one request is
  sent, and it carries the headers.\<close>

theorem C8_request_headers_witness:
  "length (sent_requests (snd (call_tool plain_lib (\<lambda>v. None) (\<lambda>req n. Answered resp_404)
      ''get_ad_accounts'' []))) = 1 \<and>
   list_all (\<lambda>req. map_of (req_headers req) ''Authorization'' = Some (''Bearer '' @ hardcoded_token) \<and>
                    map_of (req_headers req) ''Accept'' = Some ''application/json'' \<and>
                    map_of (req_headers req) ''Content-Type'' = Some ''application/json'')
     (sent_requests (snd (call_tool plain_lib (\<lambda>v. None) (\<lambda>req n. Answered resp_404)
        ''get_ad_accounts'' [])))"
proof -
  have "length (sent_requests (snd (call_tool plain_lib (\<lambda>v. None) (\<lambda>req n. Answered resp_404)
      ''get_ad_accounts'' []))) = 1"
    by (simp add: snd_call_tool dispatch_def snd_handle_get_ad_accounts snd_make_request
        session_request_def Let_def urlopen.simps is_retry_def server_instance_def
        UberAdsClient_init_def resp_404_def allowed_methods_def RETRY_AFTER_STATUS_CODES_def)
  then show ?thesis
    using C8_request_headers [of plain_lib "\<lambda>v. None" "\<lambda>req n. Answered resp_404"
        "''get_ad_accounts''" "[]"]
    by simp
qed

section \<open>Properties of call\_tool\<close>

lemma result_text_error [simp]: "result_text (error_result t) = t"
  by (simp add: result_text_def error_result_def)

lemma isError_error [simp]: "isError (error_result t)"
  by (simp add: error_result_def)

text \<open>
  C6. For every name outside the four tool names and every argument mapping,
  \<^verbatim>\<open>call_tool\<close> returns the error result with the text \<^verbatim>\<open>Unknown tool: <name>\<close> and
  \<^verbatim>\<open>isError\<close> true, without sending anything; and for every name and argument mapping
  \<^verbatim>\<open>call_tool\<close> returns a result: no exception leaves it.
\<close>

theorem C6_unknown_tool_and_no_exception:
  "(name \<notin> set tool_names \<longrightarrow>
      call_tool L getenv srv name arguments = (Inr (error_result (''Unknown tool: '' @ name)), []) \<and>
      isError (error_result (''Unknown tool: '' @ name)) \<and>
      result_text (error_result (''Unknown tool: '' @ name)) = ''Unknown tool: '' @ name) \<and>
   (\<exists>result. fst (call_tool L getenv srv name arguments) = Inr result)"
proof (intro conjI impI)
  assume "name \<notin> set tool_names"
  then show "call_tool L getenv srv name arguments =
      (Inr (error_result (''Unknown tool: '' @ name)), [])"
    by (simp add: call_tool_def dispatch_def tool_names_def)
next
  show "\<exists>result. fst (call_tool L getenv srv name arguments) = Inr result"
    by (cases "dispatch L (server_instance getenv) srv name arguments")
       (auto simp: call_tool_def split: sum.splits)
qed simp_all

text \<open>The claim at \<^verbatim>\<open>invoke("nonexistent_tool", {})\<close>.\<close>

theorem C6_unknown_tool_witness:
  "''nonexistent_tool'' \<notin> set tool_names \<and>
   call_tool plain_lib (\<lambda>v. None) (\<lambda>req n. Answered resp_503) ''nonexistent_tool'' [] =
     (Inr (error_result ''Unknown tool: nonexistent_tool''), []) \<and>
   isError (error_result ''Unknown tool: nonexistent_tool'') \<and>
   result_text (error_result ''Unknown tool: nonexistent_tool'') = ''Unknown tool: nonexistent_tool''"
  using C6_unknown_tool_and_no_exception [of "''nonexistent_tool''" plain_lib "\<lambda>v. None"
      "\<lambda>req n. Answered resp_503" "[]"]
  by (simp add: tool_names_def)

lemma sublist_concat_map:
  "x \<in> set xs \<Longrightarrow> sublist (f x) (concat (map f xs))"
proof -
  assume "x \<in> set xs"
  then obtain as bs where "xs = as @ x # bs" by (auto dest: split_list)
  then have "concat (map f xs) = concat (map f as) @ f x @ concat (map f bs)" by simp
  then show ?thesis unfolding sublist_def by blast
qed

lemma sublist_trans': "sublist a b \<Longrightarrow> sublist b c \<Longrightarrow> sublist a c"
  by (rule sublist_order.order_trans)

lemma loc_in_str_ValidationError:
  assumes "(loc, ty, inp) \<in> set es"
  shows "sublist (join_loc loc) (str_ValidationError L title es)"
proof -
  let ?f = "\<lambda>(loc, ty, inp). [CHR 0x0A] @ join_loc loc @ [CHR 0x0A] @ ''  '' @ error_wording L ty inp"
  have 1: "sublist (?f (loc, ty, inp)) (concat (map ?f es))"
    using assms by (rule sublist_concat_map)
  have "sublist (join_loc loc)
          ([CHR 0x0A] @ join_loc loc @ ([CHR 0x0A] @ ''  '' @ error_wording L ty inp))"
    by (rule sublist_appendI)
  then have 2: "sublist (join_loc loc) (?f (loc, ty, inp))"
    by simp
  have 3: "sublist (concat (map ?f es)) (str_ValidationError L title es)"
    unfolding sublist_def str_ValidationError_def by (metis append.assoc append_Nil2)
  from 2 1 3 show ?thesis by (blast intro: sublist_trans')
qed

lemma call_tool_invalid:
  "dispatch L (server_instance getenv) srv name arguments = (Inr r, evs) \<Longrightarrow>
   call_tool L getenv srv name arguments = (Inr r, evs)"
  by (simp add: call_tool_def)

lemma except_validation:
  "except_clauses L True what (Inl (ValidationError title es)) =
     Inr (error_result (''Invalid arguments: '' @ str_ValidationError L title es))"
  by (simp add: except_clauses_def)

lemma construct_invalid:
  "validate kw = Inl es \<Longrightarrow> construct title validate (JObj kw) = Inl (ValidationError title es)"
  by (simp add: construct_def)

text \<open>
  C5. For each tool with an argument record, when the arguments fail the record's
  validation with the entries \<open>es\<close>, \<^verbatim>\<open>call_tool\<close> returns the result of
  \<open>invalid_arguments\<close>: \<^verbatim>\<open>isError\<close> is true, the text begins \<^verbatim>\<open>Invalid arguments:\<close> and
  holds the location of every entry, and no request was sent.
\<close>

theorem C5_invalid_arguments:
  "(GetCampaignsArgs_validate L arguments = Inl es \<longrightarrow>
      call_tool L getenv srv ''get_campaigns'' arguments =
        invalid_arguments L ''GetCampaignsArgs'' es) \<and>
   (GetCampaignDetailsArgs_validate arguments = Inl es \<longrightarrow>
      call_tool L getenv srv ''get_campaign_details'' arguments =
        invalid_arguments L ''GetCampaignDetailsArgs'' es) \<and>
   (GetCampaignStatsArgs_validate arguments = Inl es \<longrightarrow>
      call_tool L getenv srv ''get_campaign_stats'' arguments =
        invalid_arguments L ''GetCampaignStatsArgs'' es) \<and>
   (\<forall>result evs. invalid_arguments L title es = (Inr result, evs) \<longrightarrow>
      isError result \<and> prefix ''Invalid arguments:'' (result_text result) \<and>
      attempts evs = 0 \<and>
      (\<forall>loc ty inp. (loc, ty, inp) \<in> set es \<longrightarrow> sublist (join_loc loc) (result_text result)))"
proof (intro conjI impI allI)
  assume "GetCampaignsArgs_validate L arguments = Inl es"
  then show "call_tool L getenv srv ''get_campaigns'' arguments = invalid_arguments L ''GetCampaignsArgs'' es"
    by (simp add: call_tool_def dispatch_def handle_get_campaigns_def construct_invalid
        except_validation invalid_arguments_def)
next
  assume "GetCampaignDetailsArgs_validate arguments = Inl es"
  then show "call_tool L getenv srv ''get_campaign_details'' arguments =
      invalid_arguments L ''GetCampaignDetailsArgs'' es"
    by (simp add: call_tool_def dispatch_def handle_get_campaign_details_def construct_invalid
        except_validation invalid_arguments_def)
next
  assume "GetCampaignStatsArgs_validate arguments = Inl es"
  then show "call_tool L getenv srv ''get_campaign_stats'' arguments =
      invalid_arguments L ''GetCampaignStatsArgs'' es"
    by (simp add: call_tool_def dispatch_def handle_get_campaign_stats_def construct_invalid
        except_validation invalid_arguments_def)
next
  fix result evs loc ty inp
  assume r: "invalid_arguments L title es = (Inr result, evs)"
  show "isError result" using r by (auto simp: invalid_arguments_def)
  show "prefix ''Invalid arguments:'' (result_text result)"
    using r by (auto simp: invalid_arguments_def)
  show "attempts evs = 0" using r by (auto simp: invalid_arguments_def)
  assume "(loc, ty, inp) \<in> set es"
  then have "sublist (join_loc loc) (str_ValidationError L title es)"
    by (rule loc_in_str_ValidationError)
  moreover have "result_text result = ''Invalid arguments: '' @ str_ValidationError L title es"
    using r by (auto simp: invalid_arguments_def)
  moreover have "sublist (str_ValidationError L title es)
      (''Invalid arguments: '' @ str_ValidationError L title es)"
    by (rule sublist_append_leftI)
  ultimately show "sublist (join_loc loc) (result_text result)"
    by (simp only: sublist_trans')
qed

text \<open>The claim at \<^verbatim>\<open>invoke("get_campaigns", {})\<close>: the one entry is the missing
  \<^verbatim>\<open>ad_account_id\<close>.\<close>

theorem C5_invalid_arguments_witness:
  "GetCampaignsArgs_validate plain_lib [] = Inl [([''ad_account_id''], ''missing'', JObj [])] \<and>
   call_tool plain_lib (\<lambda>v. None) (\<lambda>req n. Answered resp_503) ''get_campaigns'' [] =
     (Inr (error_result (''Invalid arguments: 1 validation error for GetCampaignsArgs'' @
            [CHR 0x0A] @ ''ad_account_id'' @ [CHR 0x0A] @ ''  missing'')), []) \<and>
   sublist ''ad_account_id''
     (result_text (error_result (''Invalid arguments: 1 validation error for GetCampaignsArgs'' @
            [CHR 0x0A] @ ''ad_account_id'' @ [CHR 0x0A] @ ''  missing'')))"
proof -
  let ?es = "[([''ad_account_id''], ''missing'', JObj [])]"
  have v: "GetCampaignsArgs_validate plain_lib [] = Inl ?es"
    by (simp add: GetCampaignsArgs_validate_def required_def with_default_def errs_def Let_def)
  have t: "invalid_arguments plain_lib ''GetCampaignsArgs'' ?es =
     (Inr (error_result (''Invalid arguments: 1 validation error for GetCampaignsArgs'' @
            [CHR 0x0A] @ ''ad_account_id'' @ [CHR 0x0A] @ ''  missing'')), [])"
    by (simp add: invalid_arguments_def str_ValidationError_def show_nat.simps digit_char_def
        join_loc_def plain_lib_def)
  note c = C5_invalid_arguments [of plain_lib "[]" ?es "\<lambda>v. None" "\<lambda>req n. Answered resp_503"
      "''GetCampaignsArgs''"]
  from c v have 1: "call_tool plain_lib (\<lambda>v. None) (\<lambda>req n. Answered resp_503) ''get_campaigns'' [] =
      invalid_arguments plain_lib ''GetCampaignsArgs'' ?es"
    by blast
  from c have "\<forall>result evs. invalid_arguments plain_lib ''GetCampaignsArgs'' ?es = (Inr result, evs) \<longrightarrow>
      (\<forall>loc ty inp. (loc, ty, inp) \<in> set ?es \<longrightarrow> sublist (join_loc loc) (result_text result))"
    by blast
  with t have "sublist (join_loc [''ad_account_id''])
     (result_text (error_result (''Invalid arguments: 1 validation error for GetCampaignsArgs'' @
            [CHR 0x0A] @ ''ad_account_id'' @ [CHR 0x0A] @ ''  missing'')))"
    by (metis list.set_intros(1))
  then have 2: "sublist ''ad_account_id''
     (result_text (error_result (''Invalid arguments: 1 validation error for GetCampaignsArgs'' @
            [CHR 0x0A] @ ''ad_account_id'' @ [CHR 0x0A] @ ''  missing'')))"
    by (simp add: join_loc_def)
  from v 1 t 2 show ?thesis by simp
qed

section \<open>Properties of the client operations on a response\<close>

lemma session_request_once:
  assumes "received srv r"
    and "status_code r \<notin> set [429, 500, 502, 503, 504]"
    and "retry_after r = None \<or> status_code r \<notin> set [413, 429, 503]"
  shows "session_request (UberAdsClient_init cfg) srv method u params =
     (Inr r, [Sent \<lparr>req_method = method, req_url = u, req_params = params,
                    req_headers = session_headers (UberAdsClient_init cfg), req_timeout = 30\<rparr>])"
proof -
  let ?c = "UberAdsClient_init cfg"
  let ?req = "\<lparr>req_method = method, req_url = u, req_params = params,
                 req_headers = session_headers ?c, req_timeout = 30\<rparr>"
  have ans: "srv ?req 0 = Answered r" using assms(1) by (simp add: received_def)
  have nr: "\<not> is_retry (retry_strategy ?c) (req_method ?req) (status_code r) (retry_after r \<noteq> None)"
    using assms(2,3) by (auto simp: is_retry_def UberAdsClient_init_def RETRY_AFTER_STATUS_CODES_def)
  have "urlopen (retry_strategy ?c) ?req (srv ?req) 0 = (Inr r, [Sent ?req])"
    using ans nr by (rule urlopen_once)
  then show ?thesis by (simp add: session_request_def Let_def)
qed

lemma make_request_success:
  assumes "received srv r" and "success r" and "body_of r = Some data"
  shows "fst (make_request L (UberAdsClient_init cfg) srv method endpoint params) = Inr data"
proof -
  have 1: "status_code r \<notin> set [429, 500, 502, 503, 504]"
    and 2: "retry_after r = None \<or> status_code r \<notin> set [413, 429, 503]"
    and 3: "\<not> raises_for_status r"
    using assms(2) by (auto simp: success_def raises_for_status_def)
  note sr = session_request_once [OF assms(1) 1 2]
  show ?thesis
    using 3 assms(3)
    by (auto simp: make_request_def make_request_try_def sr body_of_def Response_json_def
        split: if_splits)
qed

lemma make_request_http_error:
  assumes "received srv r" and "raises_for_status r"
    and "status_code r \<notin> set [429, 500, 502, 503, 504]"
    and "retry_after r = None \<or> status_code r \<notin> set [413, 429, 503]"
  shows "fst (make_request L (UberAdsClient_init cfg) srv method endpoint params) =
     Inl (UberAdsAPIError (''Uber Ads API error: '' @ http_error_msg r) None)"
proof -
  note sr = session_request_once [OF assms(1,3,4)]
  have "\<not> Response_bool r" using assms(2) by (simp add: Response_bool_def)
  then have "http_error_message L r = http_error_msg r" "http_error_status r = None"
    by (simp_all add: http_error_message_def http_error_status_def and_then_def dict_get_def fmt_def)
  then show ?thesis
    using assms(2) by (simp add: make_request_def make_request_try_def sr)
qed

lemma fst_case_pair: "fst (case p of (r, evs) \<Rightarrow> (f r, evs)) = f (fst p)"
  by (cases p) simp

lemma fst_get_ad_accounts:
  "fst (get_ad_accounts L client srv) =
   failed_to_retrieve L ''ad accounts''
     (and_then (fst (make_request L client srv ''GET'' ''/v1/ads'' []))
        (normalize (construct ''AdAccount'' AdAccount_validate)))"
  by (simp add: get_ad_accounts_def fst_case_pair)

lemma fst_get_campaigns:
  "fst (get_campaigns L client srv a options) =
   failed_to_retrieve L ''campaigns''
     (and_then (fst (make_request L client srv ''GET'' (''/v1/ads/'' @ a @ ''/campaigns'')
          (get_campaigns_params (case options of None \<Rightarrow> GetCampaignsOptions_default | Some given \<Rightarrow> given))))
        (normalize (construct ''Campaign'' (Campaign_validate L))))"
  by (simp add: get_campaigns_def Let_def fst_case_pair)

lemma fst_get_campaign_details:
  "fst (get_campaign_details L client srv a c) =
   failed_to_retrieve L ''campaign details''
     (and_then (fst (make_request L client srv ''GET'' (''/v1/ads/'' @ a @ ''/campaigns/'' @ c) []))
        (\<lambda>response_data. and_then (dict_get response_data ''data'' response_data)
                  (construct ''Campaign'' (Campaign_validate L))))"
  by (simp add: get_campaign_details_def fst_case_pair)

lemma fst_get_campaign_stats:
  "fst (get_campaign_stats L client srv a ids sd ed ms) =
   failed_to_retrieve L ''campaign stats''
     (and_then (fst (make_request L client srv ''GET'' (''/v1/ads/'' @ a @ ''/reports/campaigns'')
          (get_campaign_stats_params ids sd ed ms)))
        (normalize (construct ''CampaignStats'' (CampaignStats_validate L))))"
  by (simp add: get_campaign_stats_def fst_case_pair)

lemma and_then_Inr [simp]: "and_then (Inr x) f = f x"
  by (simp add: and_then_def)

lemma and_then_Inl [simp]: "and_then (Inl e) f = Inl e"
  by (simp add: and_then_def)

lemma construct_all_Inr: "(construct_all mk xs = Inr ys) = (map mk xs = map Inr ys)"
proof (induction xs arbitrary: ys)
  case Nil
  then show ?case by auto
next
  case (Cons x xs)
  show ?case
  proof (cases "mk x")
    case (Inl e)
    then show ?thesis by (cases ys) auto
  next
    case (Inr y)
    show ?thesis
    proof (cases "construct_all mk xs")
      case (Inl e)
      with Inr Cons.IH show ?thesis by (cases ys) auto
    next
      case r: (Inr zs)
      with Inr Cons.IH [of zs] Cons.IH show ?thesis by (cases ys) auto
    qed
  qed
qed

lemma failed_to_retrieve_Inl:
  "failed_to_retrieve L what (Inl e) =
     Inl (UberAdsAPIError (''Failed to retrieve '' @ what @ '': '' @ str_exn L e) None)"
  by (simp add: failed_to_retrieve_def)

lemma failed_to_retrieve_Inr: "failed_to_retrieve L what (Inr x) = Inr x"
  by (simp add: failed_to_retrieve_def)

lemma failed_to_retrieve_raises:
  "failed_to_retrieve L what r = Inl e \<Longrightarrow> \<exists>m. e = UberAdsAPIError m None"
  by (cases r) (auto simp: failed_to_retrieve_def)

lemma except_clauses_api_error:
  "except_clauses L wv what (Inl (UberAdsAPIError m sc)) =
     Inr (error_result (''Error retrieving '' @ what @ '': '' @ m))"
  by (simp add: except_clauses_def)

lemma except_clauses_result: "\<exists>result. except_clauses L wv what body = Inr result"
  by (cases body) (auto simp: except_clauses_def split: exn.splits)

lemma except_clauses_invalid:
  assumes "except_clauses L wv what body = Inr result"
    and "prefix ''Invalid arguments:'' (result_text result)"
  shows "(\<exists>title es. body = Inl (ValidationError title es)) \<or> body = Inr result"
proof (cases body)
  case (Inl e)
  with assms show ?thesis
    by (cases e) (auto simp: except_clauses_def split: if_splits)
next
  case (Inr r)
  with assms show ?thesis by (simp add: except_clauses_def)
qed

lemma dumped_not_error: "and_then r (\<lambda>x. dumped L (f x)) = Inr result \<Longrightarrow> \<not> isError result"
  by (cases r) (auto simp: dumped_def text_result_def)

lemma dumped_raises: "and_then r (\<lambda>x. dumped L (f x)) = Inl e \<Longrightarrow> r = Inl e"
  by (cases r) (auto simp: dumped_def)

lemma fst_handle_get_ad_accounts:
  "fst (handle_get_ad_accounts L client srv) =
     except_clauses L False ''ad accounts''
       (and_then (fst (get_ad_accounts L client srv))
          (\<lambda>ad_accounts. dumped L (JList (map AdAccount_dump ad_accounts))))"
  by (simp add: handle_get_ad_accounts_def fst_case_pair)

lemma fst_handle_get_campaigns:
  "fst (handle_get_campaigns L client srv arguments) =
     except_clauses L True ''campaigns''
       (and_then (construct ''GetCampaignsArgs'' (GetCampaignsArgs_validate L) (JObj arguments))
          (\<lambda>args. and_then
             (fst (get_campaigns L client srv (ca_ad_account_id args)
                (Some \<lparr>limit = ca_limit args, offset = ca_offset args, status = ca_status args,
                       objective = None, sort_by = None, sort_order = None\<rparr>)))
             (\<lambda>campaigns. dumped L (JList (map Campaign_dump campaigns)))))"
  by (simp add: handle_get_campaigns_def fst_case_pair Let_def and_then_def split: sum.splits)

lemma fst_handle_get_campaign_details:
  "fst (handle_get_campaign_details L client srv arguments) =
     except_clauses L True ''campaign details''
       (and_then (construct ''GetCampaignDetailsArgs'' GetCampaignDetailsArgs_validate (JObj arguments))
          (\<lambda>args. and_then
             (fst (get_campaign_details L client srv (cd_ad_account_id args) (cd_campaign_id args)))
             (\<lambda>campaign. dumped L (Campaign_dump campaign))))"
  by (simp add: handle_get_campaign_details_def fst_case_pair and_then_def split: sum.splits)

lemma fst_handle_get_campaign_stats:
  "fst (handle_get_campaign_stats L client srv arguments) =
     except_clauses L True ''campaign stats''
       (and_then (construct ''GetCampaignStatsArgs'' GetCampaignStatsArgs_validate (JObj arguments))
          (\<lambda>args. and_then
             (fst (get_campaign_stats L client srv (cs_ad_account_id args) (cs_campaign_ids args)
                (cs_start_date args) (cs_end_date args) (cs_metrics args)))
             (\<lambda>stats. dumped L (JList (map CampaignStats_dump stats)))))"
  by (simp add: handle_get_campaign_stats_def fst_case_pair and_then_def split: sum.splits)

lemma fst_call_tool:
  "fst (call_tool L getenv srv name arguments) =
     (case fst (dispatch L (server_instance getenv) srv name arguments) of
        Inl e \<Rightarrow> Inr (error_result (''Tool execution failed: '' @ str_exn L e))
      | Inr result \<Rightarrow> Inr result)"
  by (simp add: call_tool_def split: prod.splits sum.splits)

lemma construct_Inr:
  "validate kw = Inr x \<Longrightarrow> construct title validate (JObj kw) = Inr x"
  by (simp add: construct_def)

lemma invalid_needs_arguments:
  assumes "except_clauses L wv what
             (and_then (failed_to_retrieve L what' r) (\<lambda>x. dumped L (f x))) = Inr result"
    and "isError result" and "prefix ''Invalid arguments:'' (result_text result)"
  shows False
proof -
  from except_clauses_invalid [OF assms(1,3)] assms(2) obtain t es where
    "and_then (failed_to_retrieve L what' r) (\<lambda>x. dumped L (f x)) = Inl (ValidationError t es)"
    by (auto dest: dumped_not_error)
  then have "failed_to_retrieve L what' r = Inl (ValidationError t es)"
    by (rule dumped_raises)
  then show False by (auto dest: failed_to_retrieve_raises)
qed

lemma invalid_only_from_arguments:
  assumes "except_clauses L True what
             (and_then (construct title validate (JObj arguments))
                (\<lambda>args. and_then (failed_to_retrieve L what' (r args)) (\<lambda>x. dumped L (f x)))) = Inr result"
    and "isError result" and "prefix ''Invalid arguments:'' (result_text result)"
  shows "isl (validate arguments)"
proof (cases "validate arguments")
  case (Inl es)
  then show ?thesis by simp
next
  case (Inr args)
  then have "construct title validate (JObj arguments) = Inr args"
    by (simp add: construct_def)
  with assms(1) have "except_clauses L True what
      (and_then (failed_to_retrieve L what' (r args)) (\<lambda>x. dumped L (f x))) = Inr result"
    by simp
  from invalid_needs_arguments [OF this assms(2,3)] show ?thesis ..
qed

lemma empty_object_rejected:
  "isl (AdAccount_validate [])" "isl (Campaign_validate L [])" "isl (CampaignStats_validate L [])"
  by (simp_all add: AdAccount_validate_def Campaign_validate_def CampaignStats_validate_def
      required_def Let_def)

lemma normalize_empty_object:
  "isl (validate []) \<Longrightarrow> isl (normalize (construct title validate) (JObj []))"
  by (cases "validate []") (simp_all add: normalize_def dict_get_def construct_def)

lemma details_empty_object:
  "isl (validate []) \<Longrightarrow>
   isl (and_then (dict_get (JObj []) ''data'' (JObj [])) (construct title validate))"
  by (cases "validate []") (simp_all add: dict_get_def construct_def)

lemma invalid_arguments_origin:
  assumes "fst (call_tool L getenv srv name arguments) = Inr result"
    and "isError result" and "prefix ''Invalid arguments:'' (result_text result)"
  shows "(name = ''get_campaigns'' \<and> isl (GetCampaignsArgs_validate L arguments)) \<or>
         (name = ''get_campaign_details'' \<and> isl (GetCampaignDetailsArgs_validate arguments)) \<or>
         (name = ''get_campaign_stats'' \<and> isl (GetCampaignStatsArgs_validate arguments))"
proof -
  let ?c = "server_instance getenv"
  consider (a) "name = ''get_ad_accounts''" | (b) "name = ''get_campaigns''"
    | (c) "name = ''get_campaign_details''" | (d) "name = ''get_campaign_stats''"
    | (e) "name \<notin> set tool_names"
    by (auto simp: tool_names_def)
  then show ?thesis
  proof cases
    case a
    have "\<exists>res. fst (handle_get_ad_accounts L ?c srv) = Inr res"
      by (simp only: fst_handle_get_ad_accounts except_clauses_result)
    then obtain res where r: "fst (handle_get_ad_accounts L ?c srv) = Inr res" by blast
    with a assms(1) have "res = result" by (simp add: fst_call_tool dispatch_def)
    with r have "except_clauses L False ''ad accounts''
       (and_then (failed_to_retrieve L ''ad accounts''
           (and_then (fst (make_request L ?c srv ''GET'' ''/v1/ads'' []))
              (normalize (construct ''AdAccount'' AdAccount_validate))))
          (\<lambda>ad_accounts. dumped L (JList (map AdAccount_dump ad_accounts)))) = Inr result"
      by (simp add: fst_handle_get_ad_accounts fst_get_ad_accounts)
    from invalid_needs_arguments [OF this assms(2,3)] show ?thesis ..
  next
    case b
    have "\<exists>res. fst (handle_get_campaigns L ?c srv arguments) = Inr res"
      by (simp only: fst_handle_get_campaigns except_clauses_result)
    then obtain res where r: "fst (handle_get_campaigns L ?c srv arguments) = Inr res" by blast
    with b assms(1) have "res = result" by (simp add: fst_call_tool dispatch_def)
    with r have "except_clauses L True ''campaigns''
       (and_then (construct ''GetCampaignsArgs'' (GetCampaignsArgs_validate L) (JObj arguments))
          (\<lambda>args. and_then
             (failed_to_retrieve L ''campaigns''
                (and_then (fst (make_request L ?c srv ''GET''
                     (''/v1/ads/'' @ ca_ad_account_id args @ ''/campaigns'')
                     (get_campaigns_params
                        \<lparr>limit = ca_limit args, offset = ca_offset args, status = ca_status args,
                         objective = None, sort_by = None, sort_order = None\<rparr>)))
                   (normalize (construct ''Campaign'' (Campaign_validate L)))))
             (\<lambda>campaigns. dumped L (JList (map Campaign_dump campaigns))))) = Inr result"
      by (simp add: fst_handle_get_campaigns fst_get_campaigns)
    from invalid_only_from_arguments [OF this assms(2,3)] b show ?thesis by simp
  next
    case c
    have "\<exists>res. fst (handle_get_campaign_details L ?c srv arguments) = Inr res"
      by (simp only: fst_handle_get_campaign_details except_clauses_result)
    then obtain res where r: "fst (handle_get_campaign_details L ?c srv arguments) = Inr res" by blast
    with c assms(1) have "res = result" by (simp add: fst_call_tool dispatch_def)
    with r have "except_clauses L True ''campaign details''
       (and_then (construct ''GetCampaignDetailsArgs'' GetCampaignDetailsArgs_validate (JObj arguments))
          (\<lambda>args. and_then
             (failed_to_retrieve L ''campaign details''
                (and_then (fst (make_request L ?c srv ''GET''
                     (''/v1/ads/'' @ cd_ad_account_id args @ ''/campaigns/'' @ cd_campaign_id args) []))
                   (\<lambda>response_data. and_then (dict_get response_data ''data'' response_data)
                      (construct ''Campaign'' (Campaign_validate L)))))
             (\<lambda>campaign. dumped L (Campaign_dump campaign)))) = Inr result"
      by (simp add: fst_handle_get_campaign_details fst_get_campaign_details)
    from invalid_only_from_arguments [OF this assms(2,3)] c show ?thesis by simp
  next
    case d
    have "\<exists>res. fst (handle_get_campaign_stats L ?c srv arguments) = Inr res"
      by (simp only: fst_handle_get_campaign_stats except_clauses_result)
    then obtain res where r: "fst (handle_get_campaign_stats L ?c srv arguments) = Inr res" by blast
    with d assms(1) have "res = result" by (simp add: fst_call_tool dispatch_def)
    with r have "except_clauses L True ''campaign stats''
       (and_then (construct ''GetCampaignStatsArgs'' GetCampaignStatsArgs_validate (JObj arguments))
          (\<lambda>args. and_then
             (failed_to_retrieve L ''campaign stats''
                (and_then (fst (make_request L ?c srv ''GET''
                     (''/v1/ads/'' @ cs_ad_account_id args @ ''/reports/campaigns'')
                     (get_campaign_stats_params (cs_campaign_ids args) (cs_start_date args)
                        (cs_end_date args) (cs_metrics args))))
                   (normalize (construct ''CampaignStats'' (CampaignStats_validate L)))))
             (\<lambda>stats. dumped L (JList (map CampaignStats_dump stats))))) = Inr result"
      by (simp add: fst_handle_get_campaign_stats fst_get_campaign_stats)
    from invalid_only_from_arguments [OF this assms(2,3)] d show ?thesis by simp
  next
    case e
    with assms show ?thesis
      by (auto simp: fst_call_tool dispatch_def tool_names_def)
  qed
qed

lemma isl_at_loc [simp]: "isl (at_loc k r) = isl r"
  by (cases r) (simp_all add: at_loc_def)

lemma construct_campaign_c1:
  "construct ''Campaign'' (Campaign_validate L) campaign_c1 = Inr entity_c1"
  by (simp add: construct_def campaign_c1_def entity_c1_def Campaign_validate_def required_def
      with_default_def Let_def v_str_def v_literal_def v_optional_def v_float_def at_loc_def
      campaign_status_values_def budget_type_values_def)

lemma Campaign_validate_empty:
  "Campaign_validate L [] = Inl (missing_in_empty [''id'', ''name'', ''status'', ''objective'',
     ''budget_type'', ''start_time'', ''created_at'', ''updated_at''])"
  by (simp add: Campaign_validate_def required_def with_default_def Let_def errs_def
      missing_in_empty_def)

text \<open>
  C10. When the first response is a 2xx response whose body decodes to \<open>data\<close> (the empty
  dictionary for an empty body) and the construction of the entities from \<open>data\<close> raises
  \<open>e\<close> (a \<^verbatim>\<open>ValidationError\<close> among others), each client operation raises an
  \<^verbatim>\<open>UberAdsAPIError\<close> whose message is \<^verbatim>\<open>Failed to retrieve ...: \<close> followed by
  \<^verbatim>\<open>str(e)\<close>, and \<^verbatim>\<open>call_tool\<close> with valid arguments returns the error result
  \<^verbatim>\<open>Error retrieving ...: \<close> followed by that message. The empty dictionary fails the
  construction of every entity. And an error result of \<^verbatim>\<open>call_tool\<close> whose text begins
  \<^verbatim>\<open>Invalid arguments:\<close> comes from a tool with an argument record whose validation of
  the arguments failed.
\<close>

theorem C10_response_validation_failure:
  "(received srv r \<and> success r \<and> body_of r = Some data \<longrightarrow>
     (normalize (construct ''AdAccount'' AdAccount_validate) data = Inl e \<longrightarrow>
        fst (get_ad_accounts L (server_instance getenv) srv) =
          Inl (UberAdsAPIError (''Failed to retrieve ad accounts: '' @ str_exn L e) None) \<and>
        fst (call_tool L getenv srv ''get_ad_accounts'' arguments) =
          Inr (error_result (''Error retrieving ad accounts: Failed to retrieve ad accounts: '' @
                 str_exn L e))) \<and>
     (normalize (construct ''Campaign'' (Campaign_validate L)) data = Inl e \<longrightarrow>
        fst (get_campaigns L (server_instance getenv) srv a options) =
          Inl (UberAdsAPIError (''Failed to retrieve campaigns: '' @ str_exn L e) None) \<and>
        (\<not> isl (GetCampaignsArgs_validate L arguments) \<longrightarrow>
           fst (call_tool L getenv srv ''get_campaigns'' arguments) =
             Inr (error_result (''Error retrieving campaigns: Failed to retrieve campaigns: '' @
                    str_exn L e)))) \<and>
     (and_then (dict_get data ''data'' data) (construct ''Campaign'' (Campaign_validate L)) = Inl e \<longrightarrow>
        fst (get_campaign_details L (server_instance getenv) srv a c) =
          Inl (UberAdsAPIError (''Failed to retrieve campaign details: '' @ str_exn L e) None) \<and>
        (\<not> isl (GetCampaignDetailsArgs_validate arguments) \<longrightarrow>
           fst (call_tool L getenv srv ''get_campaign_details'' arguments) =
             Inr (error_result
                    (''Error retrieving campaign details: Failed to retrieve campaign details: '' @
                     str_exn L e)))) \<and>
     (normalize (construct ''CampaignStats'' (CampaignStats_validate L)) data = Inl e \<longrightarrow>
        fst (get_campaign_stats L (server_instance getenv) srv a ids sd ed ms) =
          Inl (UberAdsAPIError (''Failed to retrieve campaign stats: '' @ str_exn L e) None) \<and>
        (\<not> isl (GetCampaignStatsArgs_validate arguments) \<longrightarrow>
           fst (call_tool L getenv srv ''get_campaign_stats'' arguments) =
             Inr (error_result
                    (''Error retrieving campaign stats: Failed to retrieve campaign stats: '' @
                     str_exn L e)))) \<and>
     (content r = [] \<longrightarrow>
        data = JObj [] \<and>
        isl (normalize (construct ''AdAccount'' AdAccount_validate) data) \<and>
        isl (normalize (construct ''Campaign'' (Campaign_validate L)) data) \<and>
        isl (and_then (dict_get data ''data'' data) (construct ''Campaign'' (Campaign_validate L))) \<and>
        isl (normalize (construct ''CampaignStats'' (CampaignStats_validate L)) data))) \<and>
   (fst (call_tool L getenv srv name arguments) = Inr result \<and> isError result \<and>
    prefix ''Invalid arguments:'' (result_text result) \<longrightarrow>
      (name = ''get_campaigns'' \<and> isl (GetCampaignsArgs_validate L arguments)) \<or>
      (name = ''get_campaign_details'' \<and> isl (GetCampaignDetailsArgs_validate arguments)) \<or>
      (name = ''get_campaign_stats'' \<and> isl (GetCampaignStatsArgs_validate arguments)))"
proof (intro conjI impI)
  assume "fst (call_tool L getenv srv name arguments) = Inr result \<and> isError result \<and>
    prefix ''Invalid arguments:'' (result_text result)"
  then show "(name = ''get_campaigns'' \<and> isl (GetCampaignsArgs_validate L arguments)) \<or>
      (name = ''get_campaign_details'' \<and> isl (GetCampaignDetailsArgs_validate arguments)) \<or>
      (name = ''get_campaign_stats'' \<and> isl (GetCampaignStatsArgs_validate arguments))"
    using invalid_arguments_origin by blast
next
  assume h: "received srv r \<and> success r \<and> body_of r = Some data"
  have mr: "fst (make_request L (server_instance getenv) srv m ep ps) = Inr data" for m ep ps
    unfolding server_instance_def using h by (blast intro: make_request_success)
  {
    assume f: "normalize (construct ''AdAccount'' AdAccount_validate) data = Inl e"
    show 1: "fst (get_ad_accounts L (server_instance getenv) srv) =
        Inl (UberAdsAPIError (''Failed to retrieve ad accounts: '' @ str_exn L e) None)"
      by (simp add: fst_get_ad_accounts mr f failed_to_retrieve_Inl)
    show "fst (call_tool L getenv srv ''get_ad_accounts'' arguments) =
        Inr (error_result (''Error retrieving ad accounts: Failed to retrieve ad accounts: '' @
               str_exn L e))"
      by (simp add: fst_call_tool dispatch_def fst_handle_get_ad_accounts 1
          except_clauses_api_error)
  }
  {
    assume f: "normalize (construct ''Campaign'' (Campaign_validate L)) data = Inl e"
    have 1: "fst (get_campaigns L (server_instance getenv) srv a' options') =
        Inl (UberAdsAPIError (''Failed to retrieve campaigns: '' @ str_exn L e) None)" for a' options'
      by (simp add: fst_get_campaigns mr f failed_to_retrieve_Inl)
    show "fst (get_campaigns L (server_instance getenv) srv a options) =
        Inl (UberAdsAPIError (''Failed to retrieve campaigns: '' @ str_exn L e) None)"
      by (rule 1)
    assume "\<not> isl (GetCampaignsArgs_validate L arguments)"
    then obtain args where "GetCampaignsArgs_validate L arguments = Inr args"
      by (cases "GetCampaignsArgs_validate L arguments") auto
    then show "fst (call_tool L getenv srv ''get_campaigns'' arguments) =
        Inr (error_result (''Error retrieving campaigns: Failed to retrieve campaigns: '' @
               str_exn L e))"
      by (simp add: fst_call_tool dispatch_def fst_handle_get_campaigns construct_def 1
          except_clauses_api_error)
  }
  {
    assume f: "and_then (dict_get data ''data'' data) (construct ''Campaign'' (Campaign_validate L)) = Inl e"
    have 1: "fst (get_campaign_details L (server_instance getenv) srv a' c') =
        Inl (UberAdsAPIError (''Failed to retrieve campaign details: '' @ str_exn L e) None)" for a' c'
      by (simp add: fst_get_campaign_details mr f failed_to_retrieve_Inl)
    show "fst (get_campaign_details L (server_instance getenv) srv a c) =
        Inl (UberAdsAPIError (''Failed to retrieve campaign details: '' @ str_exn L e) None)"
      by (rule 1)
    assume "\<not> isl (GetCampaignDetailsArgs_validate arguments)"
    then obtain args where "GetCampaignDetailsArgs_validate arguments = Inr args"
      by (cases "GetCampaignDetailsArgs_validate arguments") auto
    then show "fst (call_tool L getenv srv ''get_campaign_details'' arguments) =
        Inr (error_result
               (''Error retrieving campaign details: Failed to retrieve campaign details: '' @
                str_exn L e))"
      by (simp add: fst_call_tool dispatch_def fst_handle_get_campaign_details construct_def 1
          except_clauses_api_error)
  }
  {
    assume f: "normalize (construct ''CampaignStats'' (CampaignStats_validate L)) data = Inl e"
    have 1: "fst (get_campaign_stats L (server_instance getenv) srv a' i' s' e' m') =
        Inl (UberAdsAPIError (''Failed to retrieve campaign stats: '' @ str_exn L e) None)"
      for a' i' s' e' m'
      by (simp add: fst_get_campaign_stats mr f failed_to_retrieve_Inl)
    show "fst (get_campaign_stats L (server_instance getenv) srv a ids sd ed ms) =
        Inl (UberAdsAPIError (''Failed to retrieve campaign stats: '' @ str_exn L e) None)"
      by (rule 1)
    assume "\<not> isl (GetCampaignStatsArgs_validate arguments)"
    then obtain args where "GetCampaignStatsArgs_validate arguments = Inr args"
      by (cases "GetCampaignStatsArgs_validate arguments") auto
    then show "fst (call_tool L getenv srv ''get_campaign_stats'' arguments) =
        Inr (error_result
               (''Error retrieving campaign stats: Failed to retrieve campaign stats: '' @
                str_exn L e))"
      by (simp add: fst_call_tool dispatch_def fst_handle_get_campaign_stats construct_def 1
          except_clauses_api_error)
  }
  {
    assume "content r = []"
    with h show d: "data = JObj []" by (simp add: body_of_def)
    show "isl (normalize (construct ''AdAccount'' AdAccount_validate) data)"
      unfolding d by (rule normalize_empty_object) (rule empty_object_rejected)
    show "isl (normalize (construct ''Campaign'' (Campaign_validate L)) data)"
      unfolding d by (rule normalize_empty_object) (rule empty_object_rejected)
    show "isl (and_then (dict_get data ''data'' data) (construct ''Campaign'' (Campaign_validate L)))"
      unfolding d by (rule details_empty_object) (rule empty_object_rejected)
    show "isl (normalize (construct ''CampaignStats'' (CampaignStats_validate L)) data)"
      unfolding d by (rule normalize_empty_object) (rule empty_object_rejected)
  }
qed

text \<open>The claim at a 2xx response with an empty body to get\_campaigns.\<close>

theorem C10_response_validation_failure_witness:
  "fst (get_campaigns plain_lib (server_instance (\<lambda>v. None)) (\<lambda>req n. Answered resp_empty)
     ''acct-1'' None) =
     Inl (UberAdsAPIError (''Failed to retrieve campaigns: '' @
        str_ValidationError plain_lib ''Campaign'' (missing_in_empty [''id'', ''name'', ''status'',
          ''objective'', ''budget_type'', ''start_time'', ''created_at'', ''updated_at''])) None) \<and>
   fst (call_tool plain_lib (\<lambda>v. None) (\<lambda>req n. Answered resp_empty) ''get_campaigns''
     [(''ad_account_id'', JStr ''acct-1'')]) =
     Inr (error_result (''Error retrieving campaigns: Failed to retrieve campaigns: '' @
        str_ValidationError plain_lib ''Campaign'' (missing_in_empty [''id'', ''name'', ''status'',
          ''objective'', ''budget_type'', ''start_time'', ''created_at'', ''updated_at''])))"
proof -
  let ?es = "missing_in_empty [''id'', ''name'', ''status'', ''objective'', ''budget_type'',
     ''start_time'', ''created_at'', ''updated_at'']"
  have 1: "received (\<lambda>req n. Answered resp_empty) resp_empty \<and> success resp_empty \<and>
      body_of resp_empty = Some (JObj [])"
    by (simp add: received_def success_def body_of_def resp_empty_def)
  have 2: "normalize (construct ''Campaign'' (Campaign_validate plain_lib)) (JObj []) =
      Inl (ValidationError ''Campaign'' ?es)"
    by (simp add: normalize_def dict_get_def construct_def Campaign_validate_empty)
  have 3: "\<not> isl (GetCampaignsArgs_validate plain_lib [(''ad_account_id'', JStr ''acct-1'')])"
    by (simp add: GetCampaignsArgs_validate_def required_def with_default_def Let_def v_str_def)
  from C10_response_validation_failure [where srv = "\<lambda>req n. Answered resp_empty"
      and r = resp_empty and data = "JObj []" and e = "ValidationError ''Campaign'' ?es"
      and L = plain_lib and getenv = "\<lambda>v. None"
      and arguments = "[(''ad_account_id'', JStr ''acct-1'')]" and a = "''acct-1''"
      and options = None] 1 2 3
  show ?thesis by simp
qed

section \<open>Properties of the normalization of a response\<close>

lemma normalize_list:
  "unwrapped kvs = JList xs \<Longrightarrow> map mk xs = map Inr ys \<Longrightarrow> normalize mk (JObj kvs) = Inr ys"
  by (simp add: normalize_def dict_get_def unwrapped_def construct_all_Inr)

lemma normalize_single:
  "\<forall>ys. unwrapped kvs \<noteq> JList ys \<Longrightarrow> mk (unwrapped kvs) = Inr y \<Longrightarrow>
   normalize mk (JObj kvs) = Inr [y]"
  by (cases "unwrapped kvs") (simp_all add: normalize_def dict_get_def unwrapped_def)

lemma normalize_bare_list: "normalize mk (JList xs) = Inl (AttributeError (JList xs) ''get'')"
  by (simp add: normalize_def dict_get_def)

lemma sample_received:
  "received (\<lambda>req n. Answered (resp_json body j)) (resp_json body j)"
  "success (resp_json body j)"
  "body \<noteq> [] \<Longrightarrow> body_of (resp_json body j) = Some j"
  by (simp_all add: received_def success_def body_of_def resp_json_def)

text \<open>
  C4 (as stated, refuted). The claim covers a body that is a list of objects, not wrapped
  under \<^verbatim>\<open>data\<close>. The sample campaign validates, and for the 2xx response whose body is
  the list holding it get\_campaigns returns no list: \<^verbatim>\<open>response_data.get\<close> raises an
  \<^verbatim>\<open>AttributeError\<close>, which the operation turns into an \<^verbatim>\<open>UberAdsAPIError\<close>.
\<close>

theorem C4_bare_list_raises:
  "construct ''Campaign'' (Campaign_validate plain_lib) campaign_c1 = Inr entity_c1 \<and>
   fst (get_campaigns plain_lib (server_instance (\<lambda>v. None))
          (\<lambda>req n. Answered (resp_json ''[campaign c1]'' (JList [campaign_c1]))) ''acct-1'' None) =
     Inl (UberAdsAPIError ''Failed to retrieve campaigns: '' None)"
proof -
  have "fst (make_request plain_lib (server_instance (\<lambda>v. None))
          (\<lambda>req n. Answered (resp_json ''[campaign c1]'' (JList [campaign_c1]))) m ep ps) =
        Inr (JList [campaign_c1])" for m ep ps
    unfolding server_instance_def
    by (rule make_request_success [OF sample_received(1,2)]) (simp add: sample_received(3))
  then show ?thesis
    by (simp add: construct_campaign_c1 fst_get_campaigns normalize_bare_list
        failed_to_retrieve_Inl plain_lib_def)
qed

text \<open>
  C4 (amended). For a 2xx response whose body is a JSON object, each of get\_ad\_accounts,
  get\_campaigns and get\_campaign\_stats returns the validated entities of
  \<^verbatim>\<open>body.get("data", body)\<close>: when that is a list whose elements all validate, one entity per
  element in order; when it is not a list and validates, the one-element list of its
  entity. For a 2xx response whose body is a bare list the three operations raise an
  \<^verbatim>\<open>UberAdsAPIError\<close>.
\<close>

theorem C4_response_normalization:
  "received srv r \<and> success r \<longrightarrow>
     (body_of r = Some (JObj kvs) \<longrightarrow>
        (unwrapped kvs = JList xs \<longrightarrow>
           (map (construct ''AdAccount'' AdAccount_validate) xs = map Inr accounts \<longrightarrow>
              fst (get_ad_accounts L (server_instance getenv) srv) = Inr accounts) \<and>
           (map (construct ''Campaign'' (Campaign_validate L)) xs = map Inr campaigns \<longrightarrow>
              fst (get_campaigns L (server_instance getenv) srv a options) = Inr campaigns) \<and>
           (map (construct ''CampaignStats'' (CampaignStats_validate L)) xs = map Inr stats \<longrightarrow>
              fst (get_campaign_stats L (server_instance getenv) srv a ids sd ed ms) = Inr stats)) \<and>
        ((\<forall>ys. unwrapped kvs \<noteq> JList ys) \<longrightarrow>
           (construct ''AdAccount'' AdAccount_validate (unwrapped kvs) = Inr account \<longrightarrow>
              fst (get_ad_accounts L (server_instance getenv) srv) = Inr [account]) \<and>
           (construct ''Campaign'' (Campaign_validate L) (unwrapped kvs) = Inr campaign \<longrightarrow>
              fst (get_campaigns L (server_instance getenv) srv a options) = Inr [campaign]) \<and>
           (construct ''CampaignStats'' (CampaignStats_validate L) (unwrapped kvs) = Inr stat \<longrightarrow>
              fst (get_campaign_stats L (server_instance getenv) srv a ids sd ed ms) = Inr [stat]))) \<and>
     (body_of r = Some (JList xs) \<longrightarrow>
        fst (get_ad_accounts L (server_instance getenv) srv) =
          Inl (UberAdsAPIError (''Failed to retrieve ad accounts: '' @
                 exc_str L (AttributeError (JList xs) ''get'')) None) \<and>
        fst (get_campaigns L (server_instance getenv) srv a options) =
          Inl (UberAdsAPIError (''Failed to retrieve campaigns: '' @
                 exc_str L (AttributeError (JList xs) ''get'')) None) \<and>
        fst (get_campaign_stats L (server_instance getenv) srv a ids sd ed ms) =
          Inl (UberAdsAPIError (''Failed to retrieve campaign stats: '' @
                 exc_str L (AttributeError (JList xs) ''get'')) None))"
proof (intro conjI impI)
  assume h: "received srv r \<and> success r"
  {
    assume b: "body_of r = Some (JObj kvs)"
    have mr: "fst (make_request L (server_instance getenv) srv m ep ps) = Inr (JObj kvs)" for m ep ps
      unfolding server_instance_def using h b by (blast intro: make_request_success)
    {
      assume u: "unwrapped kvs = JList xs"
      show "fst (get_ad_accounts L (server_instance getenv) srv) = Inr accounts"
        if "map (construct ''AdAccount'' AdAccount_validate) xs = map Inr accounts"
        using normalize_list [OF u that]
        by (simp add: fst_get_ad_accounts mr failed_to_retrieve_Inr)
      show "fst (get_campaigns L (server_instance getenv) srv a options) = Inr campaigns"
        if "map (construct ''Campaign'' (Campaign_validate L)) xs = map Inr campaigns"
        using normalize_list [OF u that]
        by (simp add: fst_get_campaigns mr failed_to_retrieve_Inr)
      show "fst (get_campaign_stats L (server_instance getenv) srv a ids sd ed ms) = Inr stats"
        if "map (construct ''CampaignStats'' (CampaignStats_validate L)) xs = map Inr stats"
        using normalize_list [OF u that]
        by (simp add: fst_get_campaign_stats mr failed_to_retrieve_Inr)
    }
    {
      assume u: "\<forall>ys. unwrapped kvs \<noteq> JList ys"
      show "fst (get_ad_accounts L (server_instance getenv) srv) = Inr [account]"
        if "construct ''AdAccount'' AdAccount_validate (unwrapped kvs) = Inr account"
        using normalize_single [where mk = "construct ''AdAccount'' AdAccount_validate", OF u that]
        by (simp add: fst_get_ad_accounts mr failed_to_retrieve_Inr)
      show "fst (get_campaigns L (server_instance getenv) srv a options) = Inr [campaign]"
        if "construct ''Campaign'' (Campaign_validate L) (unwrapped kvs) = Inr campaign"
        using normalize_single [where mk = "construct ''Campaign'' (Campaign_validate L)", OF u that]
        by (simp add: fst_get_campaigns mr failed_to_retrieve_Inr)
      show "fst (get_campaign_stats L (server_instance getenv) srv a ids sd ed ms) = Inr [stat]"
        if "construct ''CampaignStats'' (CampaignStats_validate L) (unwrapped kvs) = Inr stat"
        using normalize_single [where mk = "construct ''CampaignStats'' (CampaignStats_validate L)", OF u that]
        by (simp add: fst_get_campaign_stats mr failed_to_retrieve_Inr)
    }
  }
  {
    assume b: "body_of r = Some (JList xs)"
    have mr: "fst (make_request L (server_instance getenv) srv m ep ps) = Inr (JList xs)" for m ep ps
      unfolding server_instance_def using h b by (blast intro: make_request_success)
    show "fst (get_ad_accounts L (server_instance getenv) srv) =
          Inl (UberAdsAPIError (''Failed to retrieve ad accounts: '' @
                 exc_str L (AttributeError (JList xs) ''get'')) None)"
      by (simp add: fst_get_ad_accounts mr normalize_bare_list failed_to_retrieve_Inl)
    show "fst (get_campaigns L (server_instance getenv) srv a options) =
          Inl (UberAdsAPIError (''Failed to retrieve campaigns: '' @
                 exc_str L (AttributeError (JList xs) ''get'')) None)"
      by (simp add: fst_get_campaigns mr normalize_bare_list failed_to_retrieve_Inl)
    show "fst (get_campaign_stats L (server_instance getenv) srv a ids sd ed ms) =
          Inl (UberAdsAPIError (''Failed to retrieve campaign stats: '' @
                 exc_str L (AttributeError (JList xs) ''get'')) None)"
      by (simp add: fst_get_campaign_stats mr normalize_bare_list failed_to_retrieve_Inl)
  }
qed

text \<open>The amended claim for get\_campaigns at a body with two campaigns under \<^verbatim>\<open>data\<close> and
  at a body that is one campaign.\<close>

theorem C4_response_normalization_witness:
  "fst (get_campaigns plain_lib (server_instance (\<lambda>v. None))
          (\<lambda>req n. Answered (resp_json ''{data: [campaign c1, campaign c1]}''
             (JObj [(''data'', JList [campaign_c1, campaign_c1])]))) ''acct-1'' None) =
     Inr [entity_c1, entity_c1] \<and>
   fst (get_campaigns plain_lib (server_instance (\<lambda>v. None))
          (\<lambda>req n. Answered (resp_json ''campaign c1'' campaign_c1)) ''acct-1'' None) =
     Inr [entity_c1]"
proof -
  let ?wrapped = "[(''data'', JList [campaign_c1, campaign_c1])]"
  let ?r1 = "resp_json ''{data: [campaign c1, campaign c1]}'' (JObj ?wrapped)"
  let ?r2 = "resp_json ''campaign c1'' campaign_c1"
  obtain kvs where k: "campaign_c1 = JObj kvs" "map_of kvs ''data'' = None"
    by (simp add: campaign_c1_def)
  have 1: "received (\<lambda>req n. Answered ?r1) ?r1 \<and> success ?r1" "body_of ?r1 = Some (JObj ?wrapped)"
    by (simp_all add: sample_received)
  have 2: "unwrapped ?wrapped = JList [campaign_c1, campaign_c1]"
    by (simp add: unwrapped_def)
  have 3: "map (construct ''Campaign'' (Campaign_validate plain_lib)) [campaign_c1, campaign_c1] =
      map Inr [entity_c1, entity_c1]"
    by (simp add: construct_campaign_c1)
  have 4: "received (\<lambda>req n. Answered ?r2) ?r2 \<and> success ?r2" "body_of ?r2 = Some (JObj kvs)"
    by (simp_all add: sample_received k(1) [symmetric])
  have 5: "\<forall>ys. unwrapped kvs \<noteq> JList ys" "unwrapped kvs = campaign_c1"
    by (simp_all add: unwrapped_def k)
  have 6: "construct ''Campaign'' (Campaign_validate plain_lib) (unwrapped kvs) = Inr entity_c1"
    by (simp add: 5 construct_campaign_c1)
  from C4_response_normalization [where srv = "\<lambda>req n. Answered ?r1" and r = ?r1
      and kvs = ?wrapped and xs = "[campaign_c1, campaign_c1]" and L = plain_lib
      and campaigns = "[entity_c1, entity_c1]" and getenv = "\<lambda>v. None" and a = "''acct-1''"
      and options = None] 1 2 3
  have a: "fst (get_campaigns plain_lib (server_instance (\<lambda>v. None)) (\<lambda>req n. Answered ?r1)
      ''acct-1'' None) = Inr [entity_c1, entity_c1]"
    by blast
  from C4_response_normalization [where srv = "\<lambda>req n. Answered ?r2" and r = ?r2
      and kvs = kvs and L = plain_lib and campaign = entity_c1 and getenv = "\<lambda>v. None"
      and a = "''acct-1''" and options = None] 4 5(1) 6
  have b: "fst (get_campaigns plain_lib (server_instance (\<lambda>v. None)) (\<lambda>req n. Answered ?r2)
      ''acct-1'' None) = Inr [entity_c1]"
    by blast
  from a b show ?thesis by simp
qed

section \<open>Properties of the error translation\<close>

text \<open>
  C7 (the code at the failing input). The remote side answers 404 with the body
  \<^verbatim>\<open>{"error": {"message": "Campaign not found"}}\<close>. \<^verbatim>\<open>_make_request\<close> raises an
  \<^verbatim>\<open>UberAdsAPIError\<close> whose message is built from \<^verbatim>\<open>str(e)\<close>, not from the body, and
  whose status code is \<^verbatim>\<open>None\<close>, because \<^verbatim>\<open>e.response\<close> is false for a 4xx response;
  get\_campaigns wraps it again and passes no status code.
\<close>

theorem C7_status_code_and_message_lost:
  "json_body resp_404 = Some (JObj [(''error'', JObj [(''message'', JStr ''Campaign not found'')])]) \<and>
   fst (make_request plain_lib (server_instance (\<lambda>v. None)) (\<lambda>req n. Answered resp_404)
          ''GET'' ''/v1/ads/acct-1/campaigns'' [(''limit'', JInt 50)]) =
     Inl (UberAdsAPIError
            ''Uber Ads API error: 404 Client Error: Not Found for url: https://api.uber.com/v1/ads/acct-1/campaigns?limit=50''
            None) \<and>
   fst (get_campaigns plain_lib (server_instance (\<lambda>v. None)) (\<lambda>req n. Answered resp_404)
          ''acct-1'' None) =
     Inl (UberAdsAPIError
            ''Failed to retrieve campaigns: Uber Ads API error: 404 Client Error: Not Found for url: https://api.uber.com/v1/ads/acct-1/campaigns?limit=50''
            None)"
proof -
  have r: "received (\<lambda>req n. Answered resp_404) resp_404" by (simp add: received_def)
  have 1: "raises_for_status resp_404" "status_code resp_404 \<notin> set [429, 500, 502, 503, 504]"
    "retry_after resp_404 = None \<or> status_code resp_404 \<notin> set [413, 429, 503]"
    by (simp_all add: raises_for_status_def resp_404_def)
  have m: "http_error_msg resp_404 =
      ''404 Client Error: Not Found for url: https://api.uber.com/v1/ads/acct-1/campaigns?limit=50''"
    by (simp add: http_error_msg_def resp_404_def show_nat.simps digit_char_def)
  have "fst (make_request plain_lib (server_instance (\<lambda>v. None)) (\<lambda>req n. Answered resp_404) me ep ps) =
      Inl (UberAdsAPIError (''Uber Ads API error: '' @ http_error_msg resp_404) None)" for me ep ps
    unfolding server_instance_def by (rule make_request_http_error [OF r 1])
  then show ?thesis
    by (simp add: m fst_get_campaigns failed_to_retrieve_Inl) (simp add: resp_404_def)
qed


section \<open>Properties of the validation of arguments\<close>

lemma isl_required:
  "isl (required kw k v) = (case map_of kw k of None \<Rightarrow> True | Some j \<Rightarrow> isl (v j))"
  by (simp add: required_def split: option.splits)

lemma isl_with_default:
  "isl (with_default kw k d v) = (case map_of kw k of None \<Rightarrow> False | Some j \<Rightarrow> isl (v j))"
  by (simp add: with_default_def split: option.splits)

lemma isl_if: "isl (if b then Inl x else Inr y) = b"
  by simp

lemma GetCampaignsArgs_rejects:
  "isl (GetCampaignsArgs_validate L kw) = list_ex (violated kw) (GetCampaignsArgs_fields L)"
  by (simp add: GetCampaignsArgs_validate_def Let_def isl_required isl_with_default
      GetCampaignsArgs_fields_def violated_def)

lemma GetCampaignDetailsArgs_rejects:
  "isl (GetCampaignDetailsArgs_validate kw) = list_ex (violated kw) GetCampaignDetailsArgs_fields"
  by (simp add: GetCampaignDetailsArgs_validate_def Let_def isl_required isl_with_default
      GetCampaignDetailsArgs_fields_def violated_def)

lemma GetCampaignStatsArgs_rejects:
  "isl (GetCampaignStatsArgs_validate kw) = list_ex (violated kw) GetCampaignStatsArgs_fields"
  by (simp add: GetCampaignStatsArgs_validate_def Let_def isl_required isl_with_default
      GetCampaignStatsArgs_fields_def violated_def)

lemma rejected_sends_nothing:
  "isl (validate arguments) \<Longrightarrow>
   (case construct title validate (JObj arguments) of Inl e \<Rightarrow> [] | Inr args \<Rightarrow> f args) = []"
  by (cases "validate arguments") (simp_all add: construct_def)

lemma v_str_rejects: "isl (v_str j) = (\<forall>s. j \<noteq> JStr s)"
  by (cases j) (simp_all add: v_str_def)

lemma v_optional_int_rejects:
  "\<not> isl (v_optional (v_int L) JNull)" "\<not> isl (v_optional (v_int L) (JInt i))"
  "isl (v_optional (v_int L) (JList xs))" "isl (v_optional (v_int L) (JObj kvs))"
  by (simp_all add: v_optional_def v_int_def)

lemma v_optional_literal_rejects:
  "isl (v_optional (v_literal allowed) j) = (j \<noteq> JNull \<and> (\<forall>s \<in> set allowed. j \<noteq> JStr s))"
  by (cases j) (auto simp: v_optional_def v_literal_def)

text \<open>
  C3 (as stated, refuted). A mapping for get\_campaigns with the undeclared field
  \<^verbatim>\<open>no_such_field\<close> passes validation (the field is ignored), and the request is sent;
  get\_ad\_accounts, whose handler receives no arguments, sends its request whatever the
  mapping holds.
\<close>

theorem C3_unknown_field_accepted:
  "map_of [(''ad_account_id'', JStr ''acct-1''), (''no_such_field'', JInt 1)] ''no_such_field'' =
     Some (JInt 1) \<and>
   GetCampaignsArgs_validate plain_lib [(''ad_account_id'', JStr ''acct-1''), (''no_such_field'', JInt 1)] =
     Inr \<lparr>ca_ad_account_id = ''acct-1'', ca_limit = Some 50, ca_offset = Some 0, ca_status = None\<rparr> \<and>
   attempts (snd (call_tool plain_lib (\<lambda>v. None) (\<lambda>req n. Answered resp_empty) ''get_campaigns''
     [(''ad_account_id'', JStr ''acct-1''), (''no_such_field'', JInt 1)])) = 1 \<and>
   attempts (snd (call_tool plain_lib (\<lambda>v. None) (\<lambda>req n. Answered resp_empty) ''get_ad_accounts''
     [(''no_such_field'', JInt 1)])) = 1"
proof -
  have v: "GetCampaignsArgs_validate plain_lib
      [(''ad_account_id'', JStr ''acct-1''), (''no_such_field'', JInt 1)] =
     Inr \<lparr>ca_ad_account_id = ''acct-1'', ca_limit = Some 50, ca_offset = Some 0, ca_status = None\<rparr>"
    by (simp add: GetCampaignsArgs_validate_def required_def with_default_def Let_def v_str_def
        at_loc_def)
  have r: "received (\<lambda>req n. Answered resp_empty) resp_empty"
    "status_code resp_empty \<notin> set [429, 500, 502, 503, 504]"
    "retry_after resp_empty = None \<or> status_code resp_empty \<notin> set [413, 429, 503]"
    by (simp_all add: received_def resp_empty_def)
  have s: "attempts (snd (make_request plain_lib (server_instance (\<lambda>v. None))
      (\<lambda>req n. Answered resp_empty) m ep ps)) = 1" for m ep ps
    unfolding server_instance_def
    by (simp add: snd_make_request session_request_once [OF r])
  show ?thesis
    by (simp add: v snd_call_tool dispatch_def snd_handle_get_campaigns
        snd_handle_get_ad_accounts construct_def s)
qed

text \<open>
  C3 (amended). For each of the three tools with an argument record, validation rejects a
  mapping exactly when a rule of a declared field is violated: a required field is absent,
  or a declared field holds a value its type rejects (for a string field anything but a
  string; for status anything but \<^verbatim>\<open>None\<close> and its three literals; for limit and offset a
  list or a dictionary among others). A rejected mapping gives an error result and no
  request is sent. Fields that the record does not declare have no part in it.
\<close>

theorem C3_declared_fields_validated:
  "isl (GetCampaignsArgs_validate L arguments) =
     list_ex (violated arguments) (GetCampaignsArgs_fields L) \<and>
   isl (GetCampaignDetailsArgs_validate arguments) =
     list_ex (violated arguments) GetCampaignDetailsArgs_fields \<and>
   isl (GetCampaignStatsArgs_validate arguments) =
     list_ex (violated arguments) GetCampaignStatsArgs_fields \<and>
   (list_ex (violated arguments) (GetCampaignsArgs_fields L) \<longrightarrow>
      attempts (snd (call_tool L getenv srv ''get_campaigns'' arguments)) = 0 \<and>
      (\<exists>result. fst (call_tool L getenv srv ''get_campaigns'' arguments) = Inr result \<and>
                 isError result)) \<and>
   (list_ex (violated arguments) GetCampaignDetailsArgs_fields \<longrightarrow>
      attempts (snd (call_tool L getenv srv ''get_campaign_details'' arguments)) = 0 \<and>
      (\<exists>result. fst (call_tool L getenv srv ''get_campaign_details'' arguments) = Inr result \<and>
                 isError result)) \<and>
   (list_ex (violated arguments) GetCampaignStatsArgs_fields \<longrightarrow>
      attempts (snd (call_tool L getenv srv ''get_campaign_stats'' arguments)) = 0 \<and>
      (\<exists>result. fst (call_tool L getenv srv ''get_campaign_stats'' arguments) = Inr result \<and>
                 isError result)) \<and>
   isl (v_str j) = (\<forall>s. j \<noteq> JStr s) \<and>
   isl (v_optional (v_literal options_status_values) j) =
     (j \<notin> {JNull, JStr ''ACTIVE'', JStr ''PAUSED'', JStr ''ARCHIVED''}) \<and>
   isl (v_optional (v_int L) (JList xs)) \<and> isl (v_optional (v_int L) (JObj kvs))"
proof (intro conjI impI)
  show "isl (GetCampaignsArgs_validate L arguments) =
     list_ex (violated arguments) (GetCampaignsArgs_fields L)"
    by (rule GetCampaignsArgs_rejects)
  show "isl (GetCampaignDetailsArgs_validate arguments) =
     list_ex (violated arguments) GetCampaignDetailsArgs_fields"
    by (rule GetCampaignDetailsArgs_rejects)
  show "isl (GetCampaignStatsArgs_validate arguments) =
     list_ex (violated arguments) GetCampaignStatsArgs_fields"
    by (rule GetCampaignStatsArgs_rejects)
  show "isl (v_str j) = (\<forall>s. j \<noteq> JStr s)" by (rule v_str_rejects)
  show "isl (v_optional (v_literal options_status_values) j) =
     (j \<notin> {JNull, JStr ''ACTIVE'', JStr ''PAUSED'', JStr ''ARCHIVED''})"
    by (auto simp: v_optional_literal_rejects options_status_values_def)
  show "isl (v_optional (v_int L) (JList xs))" "isl (v_optional (v_int L) (JObj kvs))"
    by (simp_all add: v_optional_int_rejects)
next
  assume "list_ex (violated arguments) (GetCampaignsArgs_fields L)"
  then have "isl (GetCampaignsArgs_validate L arguments)" by (simp add: GetCampaignsArgs_rejects)
  then obtain es where es: "GetCampaignsArgs_validate L arguments = Inl es"
    by (cases "GetCampaignsArgs_validate L arguments") auto
  then show "attempts (snd (call_tool L getenv srv ''get_campaigns'' arguments)) = 0"
    by (simp add: snd_call_tool dispatch_def snd_handle_get_campaigns construct_def)
  from es show "\<exists>result. fst (call_tool L getenv srv ''get_campaigns'' arguments) = Inr result \<and>
      isError result"
    by (simp add: fst_call_tool dispatch_def fst_handle_get_campaigns construct_def
        except_validation)
next
  assume "list_ex (violated arguments) GetCampaignDetailsArgs_fields"
  then have "isl (GetCampaignDetailsArgs_validate arguments)"
    by (simp add: GetCampaignDetailsArgs_rejects)
  then obtain es where es: "GetCampaignDetailsArgs_validate arguments = Inl es"
    by (cases "GetCampaignDetailsArgs_validate arguments") auto
  then show "attempts (snd (call_tool L getenv srv ''get_campaign_details'' arguments)) = 0"
    by (simp add: snd_call_tool dispatch_def snd_handle_get_campaign_details construct_def)
  from es show "\<exists>result. fst (call_tool L getenv srv ''get_campaign_details'' arguments) = Inr result \<and>
      isError result"
    by (simp add: fst_call_tool dispatch_def fst_handle_get_campaign_details construct_def
        except_validation)
next
  assume "list_ex (violated arguments) GetCampaignStatsArgs_fields"
  then have "isl (GetCampaignStatsArgs_validate arguments)"
    by (simp add: GetCampaignStatsArgs_rejects)
  then obtain es where es: "GetCampaignStatsArgs_validate arguments = Inl es"
    by (cases "GetCampaignStatsArgs_validate arguments") auto
  then show "attempts (snd (call_tool L getenv srv ''get_campaign_stats'' arguments)) = 0"
    by (simp add: snd_call_tool dispatch_def snd_handle_get_campaign_stats construct_def)
  from es show "\<exists>result. fst (call_tool L getenv srv ''get_campaign_stats'' arguments) = Inr result \<and>
      isError result"
    by (simp add: fst_call_tool dispatch_def fst_handle_get_campaign_stats construct_def
        except_validation)
qed

text \<open>The amended claim at a mapping for get\_campaigns whose \<^verbatim>\<open>ad_account_id\<close> is an
  integer and whose \<^verbatim>\<open>limit\<close> is a list.\<close>

theorem C3_declared_fields_validated_witness:
  "list_ex (violated [(''ad_account_id'', JInt 5), (''limit'', JList [])])
     (GetCampaignsArgs_fields plain_lib) \<and>
   isl (GetCampaignsArgs_validate plain_lib [(''ad_account_id'', JInt 5), (''limit'', JList [])]) \<and>
   attempts (snd (call_tool plain_lib (\<lambda>v. None) (\<lambda>req n. Answered resp_empty) ''get_campaigns''
     [(''ad_account_id'', JInt 5), (''limit'', JList [])])) = 0"
proof -
  have 1: "list_ex (violated [(''ad_account_id'', JInt 5), (''limit'', JList [])])
     (GetCampaignsArgs_fields plain_lib)"
    by (simp add: GetCampaignsArgs_fields_def violated_def v_str_def)
  with C3_declared_fields_validated [where arguments = "[(''ad_account_id'', JInt 5), (''limit'', JList [])]"
      and L = plain_lib and getenv = "\<lambda>v. None" and srv = "\<lambda>req n. Answered resp_empty"]
  show ?thesis by blast
qed

section \<open>Properties of the Campaign model\<close>

lemma at_loc_Inr [simp]: "at_loc k (Inr x) = Inr x"
  by (simp add: at_loc_def)

lemma at_loc_eq_Inr [simp]: "(at_loc k r = Inr x) = (r = Inr x)"
  by (cases r) (simp_all add: at_loc_def)

lemma v_items_dump:
  "list_all (\<lambda>x. v (d x) = Inr x) xs \<Longrightarrow> v_items v n (map d xs) = Inr xs"
  by (induction xs arbitrary: n) simp_all

lemma v_list_dump:
  "list_all (\<lambda>x. v (d x) = Inr x) xs \<Longrightarrow> v_list v (JList (map d xs)) = Inr xs"
  by (simp add: v_list_def v_items_dump)

lemma v_list_strs: "v_list v_str (of_strs xs) = Inr xs"
  unfolding of_strs_def by (rule v_list_dump) (simp add: list_all_iff v_str_def)

lemma v_list_literals:
  "list_all (\<lambda>g. g \<in> set allowed) xs \<Longrightarrow> v_list (v_literal allowed) (of_strs xs) = Inr xs"
  unfolding of_strs_def by (rule v_list_dump) (simp add: list_all_iff v_literal_def)

lemma v_entries_dump:
  "list_all (\<lambda>(k, x). v (d x) = Inr x) kvs \<Longrightarrow>
   v_entries v (map (\<lambda>(k, x). (k, d x)) kvs) = Inr kvs"
  by (induction kvs) auto

lemma v_optional_dump:
  "opt_all (\<lambda>y. v (d y) = Inr y \<and> d y \<noteq> JNull) x \<Longrightarrow> v_optional v (of_opt d x) = Inr x"
  by (cases x) (auto simp: opt_all_def of_opt_def v_optional_def split: json.splits)

lemma v_optional_int [simp]: "v_optional (v_int L) (of_opt JInt x) = Inr x"
  by (cases x) (simp_all add: of_opt_def v_optional_def v_int_def)

lemma v_optional_float [simp]: "v_optional (v_float L) (of_opt JFloat x) = Inr x"
  by (cases x) (simp_all add: of_opt_def v_optional_def v_float_def)

lemma v_optional_str [simp]: "v_optional v_str (of_opt JStr x) = Inr x"
  by (cases x) (simp_all add: of_opt_def v_optional_def v_str_def)

lemma v_optional_strs [simp]: "v_optional (v_list v_str) (of_opt of_strs x) = Inr x"
proof (cases x)
  case None
  then show ?thesis by (simp add: of_opt_def v_optional_def)
next
  case (Some xs)
  have "v_optional (v_list v_str) (of_strs xs) = Inr (Some xs)"
    using v_list_strs [of xs] by (simp add: v_optional_def of_strs_def)
  with Some show ?thesis by (simp add: of_opt_def)
qed

lemma v_optional_literals:
  assumes "opt_all (list_all (\<lambda>g. g \<in> set allowed)) x"
  shows "v_optional (v_list (v_literal allowed)) (of_opt of_strs x) = Inr x"
proof (cases x)
  case None
  then show ?thesis by (simp add: of_opt_def v_optional_def)
next
  case (Some xs)
  with assms have "v_list (v_literal allowed) (of_strs xs) = Inr xs"
    by (simp add: opt_all_def v_list_literals)
  then have "v_optional (v_list (v_literal allowed)) (of_strs xs) = Inr (Some xs)"
    by (simp add: v_optional_def of_strs_def)
  with Some show ?thesis by (simp add: of_opt_def)
qed

lemma v_optional_dict_int [simp]:
  "v_optional (v_dict (v_int L)) (of_opt (\<lambda>d. JObj (map (\<lambda>(k, i). (k, JInt i)) d)) x) = Inr x"
proof (cases x)
  case None
  then show ?thesis by (simp add: of_opt_def v_optional_def)
next
  case (Some d)
  have "v_entries (v_int L) (map (\<lambda>(k, i). (k, JInt i)) d) = Inr d"
    by (rule v_entries_dump) (simp add: list_all_iff v_int_def split: prod.splits)
  with Some show ?thesis by (simp add: of_opt_def v_optional_def v_dict_def)
qed

lemma v_optional_object:
  assumes "opt_all (\<lambda>y. v (JObj (d y)) = Inr y) x"
  shows "v_optional v (of_opt (\<lambda>y. JObj (d y)) x) = Inr x"
  using assms by (cases x) (simp_all add: of_opt_def v_optional_def opt_all_def)

lemma v_optional_objects:
  assumes "opt_all (list_all (\<lambda>y. v (d y) = Inr y)) x"
  shows "v_optional (v_list v) (of_opt (\<lambda>ys. JList (map d ys)) x) = Inr x"
  using assms by (cases x) (simp_all add: of_opt_def v_optional_def opt_all_def v_list_dump)

lemma LocationTargeting_roundtrip:
  "LocationTargeting_ok x \<Longrightarrow>
   v_model (LocationTargeting_validate L) (LocationTargeting_dump x) = Inr x"
  by (simp add: LocationTargeting_ok_def LocationTargeting_dump_def v_model_def
      LocationTargeting_validate_def required_def with_default_def Let_def v_literal_def v_str_def)

lemma DemographicTargeting_roundtrip:
  "DemographicTargeting_ok x \<Longrightarrow>
   v_model (DemographicTargeting_validate L) (DemographicTargeting_dump x) = Inr x"
  by (simp add: DemographicTargeting_ok_def DemographicTargeting_dump_def v_model_def
      DemographicTargeting_validate_def required_def with_default_def Let_def
      v_optional_literals)

lemma CreativeAsset_roundtrip:
  "CreativeAsset_ok x \<Longrightarrow>
   v_model (CreativeAsset_validate L) (CreativeAsset_dump x) = Inr x"
  by (simp add: CreativeAsset_ok_def CreativeAsset_dump_def v_model_def
      CreativeAsset_validate_def required_def with_default_def Let_def v_literal_def v_str_def)

lemma list_all_mono': "list_all P xs \<Longrightarrow> (\<And>x. P x \<Longrightarrow> Q x) \<Longrightarrow> list_all Q xs"
  by (simp add: list_all_iff)

lemma opt_all_mono: "opt_all P x \<Longrightarrow> (\<And>y. P y \<Longrightarrow> Q y) \<Longrightarrow> opt_all Q x"
  by (cases x) (simp_all add: opt_all_def)

lemma CreativeSpec_roundtrip:
  assumes "CreativeSpec_ok x"
  shows "v_model (CreativeSpec_validate L) (CreativeSpec_dump x) = Inr x"
proof -
  have "list_all (\<lambda>y. v_model (CreativeAsset_validate L) (CreativeAsset_dump y) = Inr y) (assets x)"
    using assms by (auto simp: CreativeSpec_ok_def intro: list_all_mono' CreativeAsset_roundtrip)
  then have "v_list (v_model (CreativeAsset_validate L)) (JList (map CreativeAsset_dump (assets x))) =
      Inr (assets x)"
    by (rule v_list_dump)
  then show ?thesis
    using assms
    by (simp add: CreativeSpec_ok_def CreativeSpec_dump_def v_model_def
        CreativeSpec_validate_def required_def with_default_def Let_def v_literal_def v_str_def)
qed

lemma CampaignTargeting_roundtrip:
  assumes "CampaignTargeting_ok x"
  shows "v_model (CampaignTargeting_validate L) (CampaignTargeting_dump x) = Inr x"
proof -
  have "opt_all (list_all (\<lambda>y. v_model (LocationTargeting_validate L) (LocationTargeting_dump y) = Inr y))
      (locations x)"
    using assms
    by (auto simp: CampaignTargeting_ok_def
        intro!: opt_all_mono [where P = "list_all LocationTargeting_ok"]
        intro: list_all_mono' LocationTargeting_roundtrip)
  then have 1: "v_optional (v_list (v_model (LocationTargeting_validate L)))
      (of_opt (\<lambda>ls. JList (map LocationTargeting_dump ls)) (locations x)) = Inr (locations x)"
    by (rule v_optional_objects)
  have 2: "v_optional (v_model (DemographicTargeting_validate L))
      (of_opt DemographicTargeting_dump (demographics x)) = Inr (demographics x)"
  proof (cases "demographics x")
    case None
    then show ?thesis by (simp add: of_opt_def v_optional_def)
  next
    case (Some d)
    with assms have "DemographicTargeting_ok d" by (simp add: CampaignTargeting_ok_def opt_all_def)
    from DemographicTargeting_roundtrip [OF this, of L] Some show ?thesis
      by (simp add: of_opt_def v_optional_def DemographicTargeting_dump_def)
  qed
  show ?thesis
    by (simp add: CampaignTargeting_dump_def v_model_def CampaignTargeting_validate_def
        required_def with_default_def Let_def 1 2)
qed

lemma Campaign_roundtrip:
  assumes "Campaign_ok c"
  shows "construct ''Campaign'' (Campaign_validate L) (Campaign_dump c) = Inr c"
proof -
  have 1: "v_optional (v_model (CampaignTargeting_validate L))
      (of_opt CampaignTargeting_dump (targeting c)) = Inr (targeting c)"
  proof (cases "targeting c")
    case None
    then show ?thesis by (simp add: of_opt_def v_optional_def)
  next
    case (Some t)
    with assms have "CampaignTargeting_ok t" by (simp add: Campaign_ok_def opt_all_def)
    from CampaignTargeting_roundtrip [OF this, of L] Some show ?thesis
      by (simp add: of_opt_def v_optional_def CampaignTargeting_dump_def)
  qed
  have "opt_all (list_all (\<lambda>y. v_model (CreativeSpec_validate L) (CreativeSpec_dump y) = Inr y))
      (creative_specs c)"
    using assms
    by (auto simp: Campaign_ok_def
        intro!: opt_all_mono [where P = "list_all CreativeSpec_ok"]
        intro: list_all_mono' CreativeSpec_roundtrip)
  then have 2: "v_optional (v_list (v_model (CreativeSpec_validate L)))
      (of_opt (\<lambda>xs. JList (map CreativeSpec_dump xs)) (creative_specs c)) = Inr (creative_specs c)"
    by (rule v_optional_objects)
  have 3: "camp_status c \<in> set campaign_status_values" "budget_type c \<in> set budget_type_values"
    using assms by (simp_all add: Campaign_ok_def)
  show ?thesis
    by (simp add: Campaign_dump_def construct_def Campaign_validate_def required_def
        with_default_def Let_def v_literal_def v_str_def 1 2 3)
qed

lemma not_isl_projr: "\<not> isl r \<Longrightarrow> r = Inr (projr r)"
  by (cases r) simp_all

lemma ensuresD: "ensures v P \<Longrightarrow> v j = Inr x \<Longrightarrow> P x"
  by (auto simp: ensures_def)

lemma ensures_literal: "ensures (v_literal allowed) (\<lambda>s. s \<in> set allowed)"
  by (auto simp: ensures_def v_literal_def split: json.splits if_splits)

lemma v_items_ensures: "ensures v P \<Longrightarrow> v_items v n js = Inr xs \<Longrightarrow> list_all P xs"
proof (induction js arbitrary: n xs)
  case Nil
  then show ?case by auto
next
  case (Cons j js)
  then show ?case
    by (auto simp: split: sum.splits dest: ensuresD)
qed

lemma ensures_list: "ensures v P \<Longrightarrow> ensures (v_list v) (list_all P)"
  unfolding ensures_def [of "v_list v"]
  by (auto simp: v_list_def split: json.splits dest: v_items_ensures)

lemma ensures_optional: "ensures v P \<Longrightarrow> ensures (v_optional v) (opt_all P)"
  unfolding ensures_def [of "v_optional v"]
  by (auto simp: v_optional_def opt_all_def split: json.splits sum.splits dest: ensuresD)

lemma ensures_model: "ensures validate P \<Longrightarrow> ensures (v_model validate) P"
  unfolding ensures_def [of "v_model validate"]
  by (auto simp: v_model_def split: json.splits dest: ensuresD)

lemma at_loc_ensures: "ensures v P \<Longrightarrow> \<not> isl (at_loc k (v j)) \<Longrightarrow> P (projr (at_loc k (v j)))"
  by (cases "v j") (auto dest: ensuresD)

lemma required_ensures: "ensures v P \<Longrightarrow> \<not> isl (required kw k v) \<Longrightarrow> P (projr (required kw k v))"
  by (cases "map_of kw k") (simp_all add: required_def at_loc_ensures)

lemma with_default_ensures:
  "ensures v P \<Longrightarrow> P d \<Longrightarrow> \<not> isl (with_default kw k d v) \<Longrightarrow> P (projr (with_default kw k d v))"
  by (cases "map_of kw k") (simp_all add: with_default_def at_loc_ensures)

lemma opt_all_None [simp]: "opt_all P None"
  by (simp add: opt_all_def)

lemma optional_field_ensures:
  assumes "ensures v P" and "\<not> isl (with_default kw k None (v_optional v))"
  shows "opt_all P (projr (with_default kw k None (v_optional v)))"
  using with_default_ensures [of "v_optional v" "opt_all P" None kw k]
    ensures_optional [OF assms(1)] assms(2)
  by simp

lemma ensures_LocationTargeting: "ensures (LocationTargeting_validate L) LocationTargeting_ok"
  unfolding ensures_def
proof (intro allI impI)
  fix kw x
  assume "LocationTargeting_validate L kw = Inr x"
  then show "LocationTargeting_ok x"
    by (auto simp: LocationTargeting_validate_def Let_def LocationTargeting_ok_def
        split: if_splits
        intro: required_ensures [OF ensures_literal])
qed

lemma ensures_DemographicTargeting:
  "ensures (DemographicTargeting_validate L) DemographicTargeting_ok"
  unfolding ensures_def
proof (intro allI impI)
  fix kw x
  assume "DemographicTargeting_validate L kw = Inr x"
  then show "DemographicTargeting_ok x"
    by (auto simp: DemographicTargeting_validate_def Let_def DemographicTargeting_ok_def
        split: if_splits
        intro: optional_field_ensures [OF ensures_list [OF ensures_literal]])
qed

lemma ensures_CampaignTargeting: "ensures (CampaignTargeting_validate L) CampaignTargeting_ok"
  unfolding ensures_def
proof (intro allI impI)
  fix kw x
  assume "CampaignTargeting_validate L kw = Inr x"
  then show "CampaignTargeting_ok x"
    by (auto simp: CampaignTargeting_validate_def Let_def CampaignTargeting_ok_def
        split: if_splits
        intro: optional_field_ensures [OF ensures_list
                 [OF ensures_model [OF ensures_LocationTargeting]]]
               optional_field_ensures [OF ensures_model [OF ensures_DemographicTargeting]])
qed

lemma ensures_CreativeAsset: "ensures (CreativeAsset_validate L) CreativeAsset_ok"
  unfolding ensures_def
proof (intro allI impI)
  fix kw x
  assume "CreativeAsset_validate L kw = Inr x"
  then show "CreativeAsset_ok x"
    by (auto simp: CreativeAsset_validate_def Let_def CreativeAsset_ok_def
        split: if_splits
        intro: required_ensures [OF ensures_literal])
qed

lemma ensures_CreativeSpec: "ensures (CreativeSpec_validate L) CreativeSpec_ok"
  unfolding ensures_def
proof (intro allI impI)
  fix kw x
  assume "CreativeSpec_validate L kw = Inr x"
  then show "CreativeSpec_ok x"
    by (auto simp: CreativeSpec_validate_def Let_def CreativeSpec_ok_def
        split: if_splits
        intro: required_ensures [OF ensures_literal]
               required_ensures [OF ensures_list [OF ensures_model [OF ensures_CreativeAsset]]])
qed

lemma ensures_Campaign: "ensures (Campaign_validate L) Campaign_ok"
  unfolding ensures_def
proof (intro allI impI)
  fix kw x
  assume "Campaign_validate L kw = Inr x"
  then show "Campaign_ok x"
    by (auto simp: Campaign_validate_def Let_def Campaign_ok_def
        split: if_splits
        intro: required_ensures [OF ensures_literal]
               optional_field_ensures [OF ensures_model [OF ensures_CampaignTargeting]]
               optional_field_ensures [OF ensures_list
                 [OF ensures_model [OF ensures_CreativeSpec]]])
qed

lemma Campaign_validate_full: "Campaign_validate L campaign_full = Inr entity_full"
  by (simp add: campaign_full_def entity_full_def Campaign_validate_def
      CampaignTargeting_validate_def LocationTargeting_validate_def
      DemographicTargeting_validate_def CreativeSpec_validate_def CreativeAsset_validate_def
      required_def with_default_def Let_def v_str_def v_literal_def v_optional_def v_float_def
      v_int_def v_list_def v_dict_def v_model_def campaign_status_values_def
      budget_type_values_def location_type_values_def gender_values_def spec_type_values_def
      asset_type_values_def)

text \<open>
  C9. For every Campaign entity that validation returns, validating its dump
  (\<^verbatim>\<open>Campaign(**campaign.model_dump())\<close>) returns the same entity. The dump is the JSON
  value itself: writing it as text and reading it back does not change it.
\<close>

theorem C9_campaign_roundtrip:
  "Campaign_validate L kw = Inr c \<longrightarrow>
     construct ''Campaign'' (Campaign_validate L) (Campaign_dump c) = Inr c"
proof
  assume "Campaign_validate L kw = Inr c"
  with ensures_Campaign [of L] have "Campaign_ok c" by (rule ensuresD)
  then show "construct ''Campaign'' (Campaign_validate L) (Campaign_dump c) = Inr c"
    by (rule Campaign_roundtrip)
qed

text \<open>The claim at the sample campaign.\<close>

theorem C9_campaign_roundtrip_witness:
  "Campaign_validate plain_lib campaign_full = Inr entity_full \<and>
   construct ''Campaign'' (Campaign_validate plain_lib) (Campaign_dump entity_full) = Inr entity_full"
  using C9_campaign_roundtrip [of plain_lib campaign_full entity_full]
  by (simp add: Campaign_validate_full)

end
